theory Spec2Isabelle
  imports Complex_Main "HOL-Library.AList"
begin

section \<open>JavaScript values\<close>

text \<open>
  Payloads and stored documents are JSON data. An object is an association list in
  insertion order; a property read \<open>obj[k]\<close> is \<open>map_of obj k\<close>, where \<open>None\<close>
  stands for \<open>undefined\<close>; an assignment \<open>obj[k] = v\<close> is \<open>AList.update k v obj\<close>
  (replace in place, or append a new key); \<open>delete obj[k]\<close> is \<open>AList.delete k obj\<close>.
  Strings are character lists and numbers are reals.

  \<open>map_of\<close> finds own properties. A JavaScript object also inherits the members of
  \<open>Object.prototype\<close>, listed in \<open>objectPrototypeMembers\<close>: a read under one of these
  names that is not an own key finds the inherited member, not \<open>undefined\<close>. The lookup
  is therefore exact for every other key. Where the code reads an object under a key
  that a caller or a stored document chooses, the model says what it does with the
  inherited members: the tally of versions (\<open>countVersion\<close>) reads them; the one method
  that the code calls on a payload, \<open>hasOwnProperty\<close>, is modelled with the own key
  that can shadow it (\<open>validateField\<close>); the registry (\<open>getSchema\<close>) is the lookup of
  own entries, and the statements about type names without a schema are made for names
  outside that list.
\<close>

definition objectPrototypeMembers :: "string list" where
  "objectPrototypeMembers =
     [''constructor'', ''__defineGetter__'', ''__defineSetter__'', ''hasOwnProperty'',
      ''__lookupGetter__'', ''__lookupSetter__'', ''isPrototypeOf'', ''propertyIsEnumerable'',
      ''toString'', ''valueOf'', ''__proto__'', ''toLocaleString'']"

datatype jv =
    JNull
  | JBool bool
  | JNum real
  | JStr string
  | JArr "jv list"
  | JObj "(string \<times> jv) list"

type_synonym jobj = "(string \<times> jv) list"

datatype exn = TypeError | SyntaxError

text \<open>Truthiness of a value that is not \<open>undefined\<close>.\<close>

fun truthy :: "jv \<Rightarrow> bool" where
  "truthy JNull = False"
| "truthy (JBool b) = b"
| "truthy (JNum n) = (n \<noteq> 0)"
| "truthy (JStr s) = (s \<noteq> [])"
| "truthy (JArr xs) = True"
| "truthy (JObj kvs) = True"

fun typeof :: "jv \<Rightarrow> string" where
  "typeof JNull = ''object''"
| "typeof (JBool b) = ''boolean''"
| "typeof (JNum n) = ''number''"
| "typeof (JStr s) = ''string''"
| "typeof (JArr xs) = ''object''"
| "typeof (JObj kvs) = ''object''"

fun isArray :: "jv \<Rightarrow> bool" where
  "isArray (JArr xs) = True"
| "isArray v = False"


text \<open>Decimal rendering of an array index or a length, as a template literal prints it.\<close>

definition digit :: "nat \<Rightarrow> char" where
  "digit d = char_of (48 + d)"

function show_nat :: "nat \<Rightarrow> string" where
  "show_nat n = (if n < 10 then [digit n] else show_nat (n div 10) @ [digit (n mod 10)])"
  by pat_completeness auto
termination
  by (relation "measure id") auto

declare show_nat.simps [simp del]

text \<open>
  What the JavaScript runtime supplies: \<open>regexp_test p s\<close> is
  \<open>new RegExp(p).test(s)\<close>, with \<open>None\<close> when the pattern does not compile (a
  SyntaxError is thrown); \<open>to_string v\<close> is the string conversion of a value that is
  not a string (number formatting, \<open>true\<close>, joined arrays, ...).
\<close>

record runtime =
  regexp_test :: "string \<Rightarrow> string \<Rightarrow> bool option"
  to_string :: "jv \<Rightarrow> string"

definition str :: "runtime \<Rightarrow> jv \<Rightarrow> string" where
  "str rt v = (case v of JStr s \<Rightarrow> s | _ \<Rightarrow> to_string rt v)"

text \<open>
  The property read \<open>obj[key]\<close> on an arbitrary value, as the lookup of an own
  property: it throws on \<open>null\<close>; arrays and strings own their indices and \<open>length\<close>;
  numbers and booleans own nothing. For an object the lookup is the code's for every
  key outside \<open>objectPrototypeMembers\<close>.
\<close>

definition index_keys :: "nat \<Rightarrow> string list" where
  "index_keys n = map show_nat [0..<n]"

fun js_get :: "jv \<Rightarrow> string \<Rightarrow> exn + jv option" where
  "js_get JNull k = Inl TypeError"
| "js_get (JObj kvs) k = Inr (map_of kvs k)"
| "js_get (JArr xs) k =
     Inr (if k = ''length'' then Some (JNum (real (length xs)))
          else map_of (zip (index_keys (length xs)) xs) k)"
| "js_get (JStr s) k =
     Inr (if k = ''length'' then Some (JNum (real (length s)))
          else map_option (\<lambda>c. JStr [c]) (map_of (zip (index_keys (length s)) s) k))"
| "js_get (JBool b) k = Inr None"
| "js_get (JNum n) k = Inr None"

section \<open>Schema definitions\<close>

record validation =
  minLength :: "nat option"
  maxLength :: "nat option"
  pattern :: "string option"
  vmin :: "real option"
  vmax :: "real option"
  minItems :: "nat option"
  maxItems :: "nat option"

record select_option =
  opt_value :: string
  opt_label :: string

text \<open>An entry of a nested field map (\<open>field.schema[key]\<close>): what the validator reads of it.\<close>

record subfield =
  sub_type :: string
  sub_required :: bool
  sub_min :: "real option"
  sub_max :: "real option"

record field =
  name :: string
  ftype :: string
  required :: bool
  generated :: bool
  editable :: "bool option"
  validation :: "validation option"
  dflt :: "jv option"
  options :: "select_option list option"
  itemType :: "string option"
  schema :: "(string \<times> subfield) list option"

record schema_section =
  sec_name :: string
  sec_fields :: "field list"

record schema_def =
  stype :: string
  version :: string
  collection :: string
  sections :: "schema_section list option"
  top_fields :: "field list option"
  listFields :: "field list option"

section \<open>Schema registry\<close>

text \<open>
  The registry is a list of (type, schema) entries; the concrete one is \<open>schemas\<close>
  further down. \<open>getSchema\<close> is \<open>schemas[type] || null\<close>; the function below is the
  lookup of an own entry, \<open>None\<close> when the registry has none. Under the name of a
  member of \<open>Object.prototype\<close> the code then finds the inherited member, which is
  truthy and no schema: it has no version and no fields. The callers say what follows:
  \<open>validateData\<close> has a branch for it; \<open>sanitizeData\<close> returns the payload and
  \<open>getMigrationStatus\<close> takes 1.0 as the current version, as they do without a schema;
  \<open>migrateDocument\<close> is modelled for collections whose type names no such member.
\<close>

definition getSchema :: "(string \<times> schema_def) list \<Rightarrow> string \<Rightarrow> schema_def option" where
  "getSchema reg t = map_of reg t"

definition getSchemaTypes :: "(string \<times> schema_def) list \<Rightarrow> string list" where
  "getSchemaTypes reg = map fst reg"

definition isValidType :: "(string \<times> schema_def) list \<Rightarrow> string \<Rightarrow> bool" where
  "isValidType reg t = (t \<in> set (map fst reg))"

section \<open>Validator\<close>

definition quoted :: "string \<Rightarrow> string" where
  "quoted p = CHR 0x27 # p @ [CHR 0x27]"

definition fieldMsg :: "string \<Rightarrow> string \<Rightarrow> string" where
  "fieldMsg p rest = ''Field '' @ quoted p @ rest"

definition join :: "string \<Rightarrow> string list \<Rightarrow> string" where
  "join sep xs = concat (case xs of [] \<Rightarrow> [] | y # ys \<Rightarrow> y # map (\<lambda>z. sep @ z) ys)"

text \<open>
  A \<open>forEach\<close> whose callback pushes onto one shared error array: the pushes of the
  calls in order, unless a call throws, which aborts the whole loop.
\<close>

fun collectErrors :: "('a \<Rightarrow> exn + string list) \<Rightarrow> 'a list \<Rightarrow> exn + string list" where
  "collectErrors f [] = Inr []"
| "collectErrors f (x # xs) =
     (case f x of
        Inl e \<Rightarrow> Inl e
      | Inr es \<Rightarrow> (case collectErrors f xs of Inl e \<Rightarrow> Inl e | Inr es' \<Rightarrow> Inr (es @ es')))"

text \<open>The flattening of sections, \<open>fields\<close> and \<open>listFields\<close>, and the de-duplication by name.\<close>

definition collectFields :: "schema_def \<Rightarrow> field list" where
  "collectFields s =
     (case sections s of None \<Rightarrow> [] | Some secs \<Rightarrow> concat (map sec_fields secs))
     @ (case top_fields s of None \<Rightarrow> [] | Some fs \<Rightarrow> fs)
     @ (case listFields s of None \<Rightarrow> [] | Some fs \<Rightarrow> fs)"

definition dedupeFields :: "field list \<Rightarrow> field list" where
  "dedupeFields fs =
     foldl (\<lambda>fieldMap f. if name f \<in> set (map name fieldMap) then fieldMap else fieldMap @ [f]) [] fs"

text \<open>One iteration of the loop of \<open>validateObjectAgainstSchema\<close> over the nested field map.\<close>

definition validateKey :: "runtime \<Rightarrow> jv \<Rightarrow> string \<Rightarrow> string \<times> subfield \<Rightarrow> exn + string list" where
  "validateKey rt obj fieldPrefix kd =
     (case kd of (key, fieldDef) \<Rightarrow>
      (case js_get obj key of
         Inl e \<Rightarrow> Inl e
       | Inr value \<Rightarrow>
           (let fullFieldName = (if fieldPrefix \<noteq> [] then fieldPrefix @ ''.'' @ key else key) in
            Inr (if sub_required fieldDef \<and> (value = None \<or> value = Some JNull \<or> value = Some (JStr []))
                 then [fieldMsg fullFieldName '' is required'']
                 else (case value of
                         None \<Rightarrow> []
                       | Some JNull \<Rightarrow> []
                       | Some v \<Rightarrow>
                           if sub_type fieldDef = ''string'' then
                             (if typeof v \<noteq> ''string'' then [fieldMsg fullFieldName '' must be a string''] else [])
                           else if sub_type fieldDef = ''number'' then
                             (case v of
                                JNum x \<Rightarrow>
                                  (case sub_min fieldDef of
                                     None \<Rightarrow> []
                                   | Some m \<Rightarrow> if x < m then [fieldMsg fullFieldName ('' must be at least '' @ str rt (JNum m))] else [])
                                  @ (case sub_max fieldDef of
                                       None \<Rightarrow> []
                                     | Some m \<Rightarrow> if x > m then [fieldMsg fullFieldName ('' must be at most '' @ str rt (JNum m))] else [])
                              | _ \<Rightarrow> [fieldMsg fullFieldName '' must be a number''])
                           else if sub_type fieldDef = ''boolean'' then
                             (if typeof v \<noteq> ''boolean'' then [fieldMsg fullFieldName '' must be a boolean''] else [])
                           else if sub_type fieldDef = ''reference'' then
                             (if typeof v \<noteq> ''string'' then [fieldMsg fullFieldName '' must be a string (reference ID)''] else [])
                           else [])))))"

definition validateObjectAgainstSchema ::
  "runtime \<Rightarrow> jv \<Rightarrow> (string \<times> subfield) list \<Rightarrow> string \<Rightarrow> exn + string list" where
  "validateObjectAgainstSchema rt obj sch fieldPrefix = collectErrors (validateKey rt obj fieldPrefix) sch"

text \<open>The item-count checks of the \<open>array\<close> case (the \<open>else if (field.validation)\<close> branch).\<close>

definition itemCountErrors :: "field \<Rightarrow> jv list \<Rightarrow> string list" where
  "itemCountErrors fld items =
     (case validation fld of
        None \<Rightarrow> []
      | Some vd \<Rightarrow>
          (case minItems vd of
             None \<Rightarrow> []
           | Some m \<Rightarrow> if m \<noteq> 0 \<and> length items < m
                       then [fieldMsg (name fld) ('' must have at least '' @ show_nat m @ '' items'')] else [])
          @ (case maxItems vd of
               None \<Rightarrow> []
             | Some m \<Rightarrow> if m \<noteq> 0 \<and> length items > m
                         then [fieldMsg (name fld) ('' must have at most '' @ show_nat m @ '' items'')] else []))"

text \<open>The \<open>switch (field.type)\<close> of \<open>validateData\<close>, for a value that is neither undefined nor null.\<close>

definition validateType :: "runtime \<Rightarrow> field \<Rightarrow> jv \<Rightarrow> exn + string list" where
  "validateType rt fld v =
     (let fieldName = name fld in
      if ftype fld = ''string'' \<or> ftype fld = ''text'' then
        (case v of
           JStr s \<Rightarrow>
             (case validation fld of
                None \<Rightarrow> Inr []
              | Some vd \<Rightarrow>
                  (let lo = (case minLength vd of
                               None \<Rightarrow> []
                             | Some m \<Rightarrow> if m \<noteq> 0 \<and> length s < m
                                         then [fieldMsg fieldName ('' must be at least '' @ show_nat m @ '' characters'')] else []);
                       hi = (case maxLength vd of
                               None \<Rightarrow> []
                             | Some m \<Rightarrow> if m \<noteq> 0 \<and> length s > m
                                         then [fieldMsg fieldName ('' must be at most '' @ show_nat m @ '' characters'')] else [])
                   in case pattern vd of
                        None \<Rightarrow> Inr (lo @ hi)
                      | Some p \<Rightarrow>
                          if p = [] then Inr (lo @ hi)
                          else (case regexp_test rt p s of
                                  None \<Rightarrow> Inl SyntaxError
                                | Some ok \<Rightarrow>
                                    Inr (lo @ hi @ (if \<not> ok then [fieldMsg fieldName '' does not match required pattern''] else [])))))
         | _ \<Rightarrow> Inr [fieldMsg fieldName '' must be a string''])
      else if ftype fld = ''number'' then
        (case v of
           JNum x \<Rightarrow>
             (case validation fld of
                None \<Rightarrow> Inr []
              | Some vd \<Rightarrow>
                  Inr ((case vmin vd of
                          None \<Rightarrow> []
                        | Some m \<Rightarrow> if x < m then [fieldMsg fieldName ('' must be at least '' @ str rt (JNum m))] else [])
                       @ (case vmax vd of
                            None \<Rightarrow> []
                          | Some m \<Rightarrow> if x > m then [fieldMsg fieldName ('' must be at most '' @ str rt (JNum m))] else [])))
         | _ \<Rightarrow> Inr [fieldMsg fieldName '' must be a number''])
      else if ftype fld = ''boolean'' then
        Inr (if typeof v \<noteq> ''boolean'' then [fieldMsg fieldName '' must be a boolean''] else [])
      else if ftype fld = ''array'' then
        (case v of
           JArr items \<Rightarrow>
             (let bounds = itemCountErrors fld items
              in case schema fld of
                   None \<Rightarrow> Inr bounds
                 | Some sch \<Rightarrow>
                     if itemType fld = Some ''object'' then
                       (case collectErrors
                               (\<lambda>ix. validateObjectAgainstSchema rt (snd ix) sch
                                        (fieldName @ ''['' @ show_nat (fst ix) @ '']''))
                               (zip [0..<length items] items) of
                          Inl e \<Rightarrow> Inl e
                        | Inr itemErrors \<Rightarrow> Inr (bounds @ itemErrors))
                     else Inr bounds)
         | _ \<Rightarrow> Inr [fieldMsg fieldName '' must be an array''])
      else if ftype fld = ''object'' then
        (if typeof v \<noteq> ''object'' \<or> isArray v then Inr [fieldMsg fieldName '' must be an object'']
         else (case schema fld of
                 None \<Rightarrow> Inr []
               | Some sch \<Rightarrow> validateObjectAgainstSchema rt v sch fieldName))
      else if ftype fld = ''reference'' then
        Inr (if typeof v \<noteq> ''string'' then [fieldMsg fieldName '' must be a string (reference ID)''] else [])
      else if ftype fld = ''file'' then Inr []
      else if ftype fld = ''timestamp'' then Inr []
      else if ftype fld = ''select'' then
        (case options fld of
           None \<Rightarrow> Inr []
         | Some opts \<Rightarrow>
             if length opts > 0 then
               (let validValues = map opt_value opts in
                Inr (if \<not> (\<exists>s \<in> set validValues. v = JStr s)
                     then [fieldMsg fieldName ('' must be one of: '' @ join '', '' validValues)] else []))
             else Inr [])
      else Inr [])"

text \<open>
  The body of the loop \<open>allFields.forEach\<close> of \<open>validateData\<close>: the errors that one
  field pushes. \<open>data.hasOwnProperty(k)\<close> calls what the read \<open>data.hasOwnProperty\<close>
  finds. When the payload has an own key \<open>hasOwnProperty\<close>, that is a JSON value and
  the call throws a TypeError; otherwise it is the inherited method, and the call is
  membership of \<open>k\<close> in the keys of \<open>data\<close>.
\<close>

definition validateField :: "runtime \<Rightarrow> bool \<Rightarrow> jobj \<Rightarrow> field \<Rightarrow> exn + string list" where
  "validateField rt isUpdate data fld =
     (let value = map_of data (name fld); fieldName = name fld in
      if generated fld \<and> editable fld = Some False then Inr []
      else if required fld \<and> (value = None \<or> value = Some JNull \<or> value = Some (JStr [])) then
        (if isUpdate then
           (if ''hasOwnProperty'' \<in> set (map fst data) then Inl TypeError
            else if name fld \<in> set (map fst data)
            then Inr [fieldMsg fieldName '' is required and cannot be set to empty'']
            else Inr [])
         else Inr [fieldMsg fieldName '' is required''])
      else (case value of
              None \<Rightarrow> Inr []
            | Some JNull \<Rightarrow> Inr []
            | Some v \<Rightarrow> validateType rt fld v))"

record validation_result =
  valid :: bool
  errors :: "string list"
  warnings :: "string list"

definition versionWarnings :: "runtime \<Rightarrow> schema_def \<Rightarrow> bool \<Rightarrow> jobj option \<Rightarrow> string list" where
  "versionWarnings rt s isUpdate existingData =
     (case existingData of
        None \<Rightarrow> []
      | Some ex \<Rightarrow>
          (case map_of ex ''schemaVersion'' of
             None \<Rightarrow> []
           | Some sv \<Rightarrow>
               if isUpdate \<and> truthy sv \<and> sv \<noteq> JStr (version s)
               then [''Document uses schema version '' @ str rt sv @ '' but current version is ''
                     @ version s @ ''. Consider updating.'']
               else []))"

text \<open>
  The version warning when \<open>getSchema\<close> has found an inherited member of the registry
  object in place of a schema: its \<open>version\<close> is \<open>undefined\<close>, from which every
  truthy stamp differs.
\<close>

definition inheritedWarnings :: "runtime \<Rightarrow> bool \<Rightarrow> jobj option \<Rightarrow> string list" where
  "inheritedWarnings rt isUpdate existingData =
     (case existingData of
        None \<Rightarrow> []
      | Some ex \<Rightarrow>
          (case map_of ex ''schemaVersion'' of
             None \<Rightarrow> []
           | Some sv \<Rightarrow>
               if isUpdate \<and> truthy sv
               then [''Document uses schema version '' @ str rt sv
                     @ '' but current version is undefined. Consider updating.'']
               else []))"

text \<open>
  \<open>validateData\<close>. When the registry has no entry for the type, \<open>schemas[type]\<close> is
  \<open>undefined\<close> and the guard \<open>if (!schema)\<close> answers, unless the type names a member
  of \<open>Object.prototype\<close>: then \<open>schema\<close> is that member, which is truthy and has no
  \<open>sections\<close>, \<open>fields\<close> or \<open>listFields\<close>, and the validation runs over no field.
\<close>

definition validateData ::
  "runtime \<Rightarrow> (string \<times> schema_def) list \<Rightarrow> string \<Rightarrow> jobj \<Rightarrow> bool \<Rightarrow> jobj option
     \<Rightarrow> exn + validation_result" where
  "validateData rt reg t data isUpdate existingData =
     (case getSchema reg t of
        None \<Rightarrow>
          if t \<in> set objectPrototypeMembers
          then Inr \<lparr>valid = True, errors = [], warnings = inheritedWarnings rt isUpdate existingData\<rparr>
          else Inr \<lparr>valid = False, errors = [''Unknown schema type: '' @ t], warnings = []\<rparr>
      | Some s \<Rightarrow>
          (let allFields = dedupeFields (collectFields s);
               ws = versionWarnings rt s isUpdate existingData
           in case collectErrors (validateField rt isUpdate data) allFields of
                Inl e \<Rightarrow> Inl e
              | Inr es \<Rightarrow> Inr \<lparr>valid = (length es = 0), errors = es, warnings = ws\<rparr>))"

section \<open>Sanitizer\<close>

definition sanitizeData :: "(string \<times> schema_def) list \<Rightarrow> string \<Rightarrow> jobj \<Rightarrow> jobj" where
  "sanitizeData reg t data =
     (case getSchema reg t of
        None \<Rightarrow> data
      | Some s \<Rightarrow>
          foldl (\<lambda>sanitized f.
                   if editable f = Some False \<or> generated f then AList.delete (name f) sanitized
                   else sanitized)
                data (dedupeFields (collectFields s)))"

section \<open>Migration engine\<close>

text \<open>\<open>data[k] === undefined || data[k] === null\<close>\<close>

definition missing :: "jobj \<Rightarrow> string \<Rightarrow> bool" where
  "missing data k = (map_of data k = None \<or> map_of data k = Some JNull)"

text \<open>The \<open>switch (field.type)\<close> of \<open>applyDefaults\<close>; \<open>None\<close> when no case matches.\<close>

definition placeholder :: "string \<Rightarrow> jv option" where
  "placeholder t =
     (if t = ''string'' \<or> t = ''text'' then Some (JStr [])
      else if t = ''number'' then Some (JNum 0)
      else if t = ''boolean'' then Some (JBool False)
      else if t = ''array'' then Some (JArr [])
      else if t = ''object'' then Some (JObj [])
      else None)"

record defaults_result =
  updated :: jobj
  modified :: bool

text \<open>One iteration of \<open>allFields.forEach\<close> in \<open>applyDefaults\<close>; both tests read \<open>data\<close>.\<close>

definition applyField :: "jobj \<Rightarrow> defaults_result \<Rightarrow> field \<Rightarrow> defaults_result" where
  "applyField data st fld =
     (let st1 = (case dflt fld of
                   None \<Rightarrow> st
                 | Some d \<Rightarrow>
                     if missing data (name fld)
                     then \<lparr>updated = AList.update (name fld) d (updated st), modified = True\<rparr>
                     else st)
      in if required fld \<and> missing data (name fld) then
           \<lparr>updated = (case placeholder (ftype fld) of
                          None \<Rightarrow> updated st1
                        | Some p \<Rightarrow> AList.update (name fld) p (updated st1)),
            modified = True\<rparr>
         else st1)"

text \<open>
  \<open>applyDefaults\<close> collects sections, \<open>fields\<close> and \<open>listFields\<close> in the order of
  \<open>collectFields\<close>, without de-duplication, and starts from a copy of \<open>data\<close>.
\<close>

definition applyDefaults :: "jobj \<Rightarrow> schema_def \<Rightarrow> defaults_result" where
  "applyDefaults data s =
     foldl (applyField data) \<lparr>updated = data, modified = False\<rparr> (collectFields s)"

text \<open>
  The document store: every collection name holds a list of (document id, data). The
  calls issued to the store are recorded next to the store they leave behind.
\<close>

type_synonym db = "string \<Rightarrow> (string \<times> jobj) list"

text \<open>
  A query as the store's query builder holds it: the collection, the
  \<open>where('companyId', '==', ...)\<close> filter if one was added, and the \<open>limit(n)\<close> if one
  was set. \<open>runQuery\<close> is \<open>query.get()\<close>.
\<close>

record query =
  q_collection :: string
  q_where :: "string option"
  q_limit :: "nat option"

definition runQuery :: "db \<Rightarrow> query \<Rightarrow> (string \<times> jobj) list" where
  "runQuery store q =
     (let matching = (case q_where q of
                        None \<Rightarrow> store (q_collection q)
                      | Some cid \<Rightarrow> filter (\<lambda>doc. map_of (snd doc) ''companyId'' = Some (JStr cid))
                                     (store (q_collection q)))
      in case q_limit q of None \<Rightarrow> matching | Some n \<Rightarrow> take n matching)"

datatype call =
    QueryGet query
  | DocGet string string
  | DocUpdate string string jobj

text \<open>\<open>docRef.update(fields)\<close> on an existing document: each given field is set, the others stay.\<close>

definition mergeFields :: "jobj \<Rightarrow> jobj \<Rightarrow> jobj" where
  "mergeFields old upd = foldl (\<lambda>d kv. AList.update (fst kv) (snd kv) d) old upd"

definition docUpdate :: "db \<Rightarrow> string \<Rightarrow> string \<Rightarrow> jobj \<Rightarrow> jobj \<Rightarrow> db" where
  "docUpdate store c i old upd = store(c := AList.update i (mergeFields old upd) (store c))"

text \<open>\<open>data.schemaVersion || '1.0'\<close>\<close>

definition docVersion :: "jobj \<Rightarrow> jv" where
  "docVersion data =
     (case map_of data ''schemaVersion'' of
        None \<Rightarrow> JStr ''1.0''
      | Some v \<Rightarrow> if truthy v then v else JStr ''1.0'')"

record doc_report =
  success :: bool
  err :: "string option"
  message :: "string option"
  version_at :: "jv option"
  from_version :: "jv option"
  to_version :: "string option"
  changes :: "string list option"
  dry_run :: "bool option"

definition failure :: "string \<Rightarrow> doc_report" where
  "failure e = \<lparr>success = False, err = Some e, message = None, version_at = None,
                from_version = None, to_version = None, changes = None, dry_run = None\<rparr>"

text \<open>
  \<open>migrateDocument\<close>; \<open>now\<close> is \<open>new Date().toISOString()\<close>. The schema is looked up
  under the collection name without its last character.
\<close>

definition migrateDocument ::
  "(string \<times> schema_def) list \<Rightarrow> string \<Rightarrow> string \<Rightarrow> string \<Rightarrow> bool \<Rightarrow> db
     \<Rightarrow> doc_report \<times> db \<times> call list" where
  "migrateDocument reg now collectionName docId dryRun store =
     (case map_of (store collectionName) docId of
        None \<Rightarrow> (failure ''Document not found'', store, [DocGet collectionName docId])
      | Some data \<Rightarrow>
          (case getSchema reg (butlast collectionName) of
             None \<Rightarrow> (failure ''Schema not found'', store, [DocGet collectionName docId])
           | Some s \<Rightarrow>
               (let currentVersion = docVersion data;
                    targetVersion = version s
                in if currentVersion = JStr targetVersion then
                     (\<lparr>success = True, err = None, message = Some ''Already at latest version'',
                       version_at = Some currentVersion, from_version = None, to_version = None,
                       changes = None, dry_run = None\<rparr>,
                      store, [DocGet collectionName docId])
                   else
                     (let r = applyDefaults data s in
                      if \<not> modified r then
                        (let upd = [(''schemaVersion'', JStr targetVersion), (''updatedAt'', JStr now)] in
                         (\<lparr>success = True, err = None,
                           message = Some ''Version updated (no data changes needed)'',
                           version_at = None, from_version = Some currentVersion,
                           to_version = Some targetVersion, changes = None, dry_run = Some dryRun\<rparr>,
                          if \<not> dryRun then docUpdate store collectionName docId data upd else store,
                          DocGet collectionName docId
                            # (if \<not> dryRun then [DocUpdate collectionName docId upd] else [])))
                      else
                        (let upd = AList.update ''updatedAt'' (JStr now)
                                     (AList.update ''schemaVersion'' (JStr targetVersion) (updated r)) in
                         (\<lparr>success = True, err = None,
                           message = Some ''Document migrated successfully'',
                           version_at = None, from_version = Some currentVersion,
                           to_version = Some targetVersion,
                           changes = Some (filter (\<lambda>key. map_of (updated r) key \<noteq> map_of data key)
                                             (map fst (updated r))),
                           dry_run = Some dryRun\<rparr>,
                          if \<not> dryRun then docUpdate store collectionName docId data upd else store,
                          DocGet collectionName docId
                            # (if \<not> dryRun then [DocUpdate collectionName docId upd] else [])))))))"

text \<open>
  The query that \<open>migrateCollection\<close> and \<open>getMigrationStatus\<close> build:
  \<open>db.collection(collectionName)\<close>, filtered by company when \<open>companyId\<close> is truthy.
\<close>

definition collectionQuery :: "string \<Rightarrow> string option \<Rightarrow> query" where
  "collectionQuery collectionName companyId =
     (let query = \<lparr>q_collection = collectionName, q_where = None, q_limit = None\<rparr> in
      case companyId of
        None \<Rightarrow> query
      | Some cid \<Rightarrow> if cid = [] then query else query\<lparr>q_where := Some cid\<rparr>)"

definition queryDocs :: "db \<Rightarrow> string \<Rightarrow> string option \<Rightarrow> (string \<times> jobj) list" where
  "queryDocs store collectionName companyId = runQuery store (collectionQuery collectionName companyId)"

record item_result =
  item_id :: string
  item_name :: "jv option"
  item_report :: doc_report

record collection_report =
  all_success :: bool
  total :: nat
  successful :: nat
  failed :: nat
  results :: "item_result list"

text \<open>
  The loop \<open>for (const doc of snapshot.docs)\<close> of \<open>migrateCollection\<close>. Every document
  is migrated at a time of its own: \<open>clock i\<close> is the time read while document \<open>i\<close> is
  migrated.
\<close>

fun migrateEach ::
  "(string \<times> schema_def) list \<Rightarrow> (string \<Rightarrow> string) \<Rightarrow> string \<Rightarrow> bool \<Rightarrow> (string \<times> jobj) list \<Rightarrow> db
     \<Rightarrow> item_result list \<times> db \<times> call list" where
  "migrateEach reg clock collectionName dryRun [] store = ([], store, [])"
| "migrateEach reg clock collectionName dryRun (doc # docs) store =
     (case migrateDocument reg (clock (fst doc)) collectionName (fst doc) dryRun store of
        (r, store1, calls1) \<Rightarrow>
          (case migrateEach reg clock collectionName dryRun docs store1 of
             (rs, store2, calls2) \<Rightarrow>
               (\<lparr>item_id = fst doc, item_name = map_of (snd doc) ''name'', item_report = r\<rparr> # rs,
                store2, calls1 @ calls2)))"

definition migrateCollection ::
  "(string \<times> schema_def) list \<Rightarrow> (string \<Rightarrow> string) \<Rightarrow> string \<Rightarrow> string option \<Rightarrow> bool \<Rightarrow> db
     \<Rightarrow> collection_report \<times> db \<times> call list" where
  "migrateCollection reg clock collectionName companyId dryRun store =
     (let snapshot = queryDocs store collectionName companyId in
      case migrateEach reg clock collectionName dryRun snapshot store of
        (rs, store1, calls1) \<Rightarrow>
          (let successful = length (filter (\<lambda>r. success (item_report r)) rs);
               failed = length (filter (\<lambda>r. \<not> success (item_report r)) rs)
           in (\<lparr>all_success = (failed = 0), total = length rs, successful = successful,
                 failed = failed, results = rs\<rparr>,
               store1,
               QueryGet (collectionQuery collectionName companyId) # calls1)))"

text \<open>
  A value held by the tally of versions: a number of documents, or a string (what
  \<open>+ 1\<close> makes of a value that is not a number).
\<close>

datatype tally = Count nat | Text string

record status_report =
  status_collection :: string
  currentSchemaVersion :: string
  totalDocuments :: nat
  versionBreakdown :: "(string \<times> tally) list"
  needsMigration :: bool
  outdatedCount :: tally

text \<open>The operator \<open>+\<close> on numbers and strings: addition, or concatenation as soon as one side is a string.\<close>

fun plus_js :: "tally \<Rightarrow> tally \<Rightarrow> tally" where
  "plus_js (Count a) (Count b) = Count (a + b)"
| "plus_js (Count a) (Text t) = Text (show_nat a @ t)"
| "plus_js (Text s) (Count b) = Text (s @ show_nat b)"
| "plus_js (Text s) (Text t) = Text (s @ t)"

text \<open>
  The string conversion of the member of \<open>Object.prototype\<close> of a given name, as Node
  prints it: the prototype object itself under \<open>__proto__\<close>, a native function under
  every other name.
\<close>

definition memberText :: "string \<Rightarrow> string" where
  "memberText k =
     (if k = ''__proto__'' then ''[object Object]''
      else ''function '' @ (if k = ''constructor'' then ''Object'' else k) @ ''() { [native code] }'')"

text \<open>
  One iteration of \<open>snapshot.forEach\<close> in \<open>getMigrationStatus\<close>:
  \<open>versions[version] = (versions[version] || 0) + 1\<close>, the version converted to a
  property key. \<open>versions\<close> starts as \<open>{}\<close>, an object that inherits from
  \<open>Object.prototype\<close>: the read finds the own entry, else the inherited member when the
  key names one, else \<open>undefined\<close>; the write adds or replaces an own entry, except
  under \<open>__proto__\<close>, where assigning a string does nothing. The entries are kept in
  the order of their first write (JavaScript lists the keys that are array indices
  before the others; the tallies written out below have no such key).
\<close>

definition versionKey :: "runtime \<Rightarrow> jobj \<Rightarrow> string" where
  "versionKey rt data = str rt (docVersion data)"

definition countVersion :: "runtime \<Rightarrow> (string \<times> tally) list \<Rightarrow> string \<times> jobj \<Rightarrow> (string \<times> tally) list" where
  "countVersion rt versions doc =
     (let v = versionKey rt (snd doc);
          seen = (case map_of versions v of
                    Some (Count n) \<Rightarrow> Count n
                  | Some (Text t) \<Rightarrow> if t = [] then Count 0 else Text t
                  | None \<Rightarrow> if v \<in> set objectPrototypeMembers then Text (memberText v) else Count 0);
          bumped = plus_js seen (Count 1)
      in if v = ''__proto__'' then versions else AList.update v bumped versions)"

definition getMigrationStatus ::
  "runtime \<Rightarrow> (string \<times> schema_def) list \<Rightarrow> string \<Rightarrow> string option \<Rightarrow> db \<Rightarrow> status_report" where
  "getMigrationStatus rt reg collectionName companyId store =
     (let snapshot = queryDocs store collectionName companyId;
          currentVersion = (case getSchema reg (butlast collectionName) of
                              None \<Rightarrow> ''1.0''
                            | Some s \<Rightarrow> if version s = [] then ''1.0'' else version s);
          versions = foldl (countVersion rt) [] snapshot
      in \<lparr>status_collection = collectionName,
          currentSchemaVersion = currentVersion,
          totalDocuments = length snapshot,
          versionBreakdown = versions,
          needsMigration = list_ex (\<lambda>v. v \<noteq> currentVersion) (map fst versions),
          outdatedCount = foldl (\<lambda>sum vc. plus_js sum (snd vc)) (Count 0)
                            (filter (\<lambda>vc. fst vc \<noteq> currentVersion) versions)\<rparr>)"

section \<open>The schemas of the repository\<close>

text \<open>
  A descriptor with only \<open>name\<close>, \<open>type\<close> and \<open>required\<close>; the schemas below add
  the other properties that the engine reads. Labels, descriptions and upload limits
  are read by no function modelled here and are left out.
\<close>

definition fieldOf :: "string \<Rightarrow> string \<Rightarrow> bool \<Rightarrow> field" where
  "fieldOf n t r =
     \<lparr>name = n, ftype = t, required = r, generated = False, editable = None, validation = None,
      dflt = None, options = None, itemType = None, schema = None\<rparr>"

definition noValidation :: validation where
  "noValidation =
     \<lparr>minLength = None, maxLength = None, pattern = None, vmin = None, vmax = None,
      minItems = None, maxItems = None\<rparr>"

definition lengths :: "nat option \<Rightarrow> nat option \<Rightarrow> validation option" where
  "lengths lo hi = Some (noValidation\<lparr>minLength := lo, maxLength := hi\<rparr>)"

definition generatedField :: "string \<Rightarrow> string \<Rightarrow> bool \<Rightarrow> field" where
  "generatedField n t r = (fieldOf n t r)\<lparr>generated := True, editable := Some False\<rparr>"

definition opt :: "string \<Rightarrow> string \<Rightarrow> select_option" where
  "opt v l = \<lparr>opt_value = v, opt_label = l\<rparr>"

definition slider :: subfield where
  "slider = \<lparr>sub_type = ''number'', sub_required = False, sub_min = Some 0, sub_max = Some 100\<rparr>"

text \<open>The \<open>voiceId\<close> field of the character schema's \<open>languageAndSpeech\<close> section.\<close>

definition voiceIdField :: field where
  "voiceIdField = (fieldOf ''voiceId'' ''select'' True)\<lparr>options := Some []\<rparr>"

definition characterSchema :: schema_def where
  "characterSchema =
     \<lparr>stype = ''character'', version = ''1.0'', collection = ''characters'',
      sections = Some
        [\<lparr>sec_name = ''background'', sec_fields =
            [fieldOf ''image'' ''file'' False,
             (fieldOf ''name'' ''string'' True)\<lparr>validation := lengths (Some 1) (Some 200)\<rparr>,
             (fieldOf ''age'' ''number'' False)
               \<lparr>validation := Some (noValidation\<lparr>vmin := Some 0, vmax := Some 200\<rparr>)\<rparr>,
             (fieldOf ''occupation'' ''string'' False)\<lparr>validation := lengths None (Some 200)\<rparr>,
             (fieldOf ''gender'' ''string'' False)\<lparr>validation := lengths None (Some 100)\<rparr>,
             (fieldOf ''background'' ''text'' False)\<lparr>validation := lengths None (Some 5000)\<rparr>]\<rparr>,
         \<lparr>sec_name = ''behaviour'', sec_fields =
            [(fieldOf ''ambitions'' ''text'' False)\<lparr>validation := lengths None (Some 2000)\<rparr>,
             (fieldOf ''generalBehaviour'' ''text'' False)\<lparr>validation := lengths None (Some 2000)\<rparr>]\<rparr>,
         \<lparr>sec_name = ''personality'', sec_fields =
            [(fieldOf ''personalityPreset'' ''select'' False)\<lparr>options := Some []\<rparr>,
             (fieldOf ''personalitySliders'' ''object'' False)
               \<lparr>schema := Some
                  [(''introvertExtrovert'', slider), (''criticalCompassionate'', slider),
                   (''spontaneousOrganized'', slider), (''sensitiveCalm'', slider),
                   (''conventionalImaginative'', slider)]\<rparr>,
             (fieldOf ''personalityTraits'' ''text'' False)\<lparr>validation := lengths None (Some 2000)\<rparr>]\<rparr>,
         \<lparr>sec_name = ''languageAndSpeech'', sec_fields =
            [voiceIdField,
             (fieldOf ''speakingStylePreset'' ''select'' False)\<lparr>options := Some []\<rparr>,
             (fieldOf ''speakingStyleSliders'' ''object'' False)
               \<lparr>schema := Some
                  [(''bluntEmpathic'', slider), (''formalCasual'', slider),
                   (''elaborateConcise'', slider), (''seriousPlayful'', slider),
                   (''passiveAssertive'', slider)]\<rparr>,
             (fieldOf ''speakingStyleNotes'' ''text'' False)\<lparr>validation := lengths None (Some 2000)\<rparr>]\<rparr>,
         \<lparr>sec_name = ''characterBuilder'', sec_fields = []\<rparr>,
         \<lparr>sec_name = ''knowledgeBank'', sec_fields =
            [(fieldOf ''knowledge'' ''text'' False)\<lparr>validation := lengths None (Some 10000)\<rparr>,
             (fieldOf ''knowledgeFiles'' ''array'' False)\<lparr>itemType := Some ''file''\<rparr>]\<rparr>],
      top_fields = None,
      listFields = Some
        [generatedField ''id'' ''string'' True,
         fieldOf ''name'' ''string'' True,
         (fieldOf ''description'' ''text'' False)\<lparr>validation := lengths None (Some 500)\<rparr>,
         fieldOf ''voiceId'' ''string'' True,
         (fieldOf ''status'' ''select'' True)
           \<lparr>dflt := Some (JStr ''draft''),
            options := Some [opt ''draft'' ''Draft'', opt ''active'' ''Active'', opt ''archived'' ''Archived'']\<rparr>,
         generatedField ''companyId'' ''string'' True,
         generatedField ''createdBy'' ''string'' True,
         generatedField ''createdAt'' ''timestamp'' True,
         generatedField ''updatedAt'' ''timestamp'' True,
         generatedField ''updatedBy'' ''string'' False]\<rparr>"

text \<open>The \<open>roles\<close> field of the dialogue schema and its nested field map.\<close>

definition rolesSchema :: "(string \<times> subfield) list" where
  "rolesSchema =
     [(''roleId'', \<lparr>sub_type = ''string'', sub_required = True, sub_min = None, sub_max = None\<rparr>),
      (''rolePreset'', \<lparr>sub_type = ''select'', sub_required = False, sub_min = None, sub_max = None\<rparr>),
      (''roleDescription'', \<lparr>sub_type = ''text'', sub_required = False, sub_min = None, sub_max = None\<rparr>)]"

definition rolesField :: field where
  "rolesField = (fieldOf ''roles'' ''array'' False)\<lparr>itemType := Some ''object'', schema := Some rolesSchema\<rparr>"

definition dialogueSchema :: schema_def where
  "dialogueSchema =
     \<lparr>stype = ''dialogue'', version = ''1.0'', collection = ''dialogues'',
      sections = Some
        [\<lparr>sec_name = ''purpose'', sec_fields =
            [(fieldOf ''name'' ''string'' True)\<lparr>validation := lengths (Some 1) (Some 200)\<rparr>,
             (fieldOf ''description'' ''text'' False)\<lparr>validation := lengths None (Some 1000)\<rparr>,
             (fieldOf ''purposePreset'' ''select'' False)
               \<lparr>options := Some
                  [opt ''correct_feedback'' ''Correct Feedback'',
                   opt ''incorrect_feedback'' ''Incorrect Feedback'',
                   opt ''descriptive_feedback'' ''Descriptive Feedback'',
                   opt ''evaluative_feedback'' ''Evaluative Feedback'',
                   opt ''suggestive_feedback'' ''Suggestive Feedback'',
                   opt ''incomplete_feedback'' ''Incomplete Feedback'',
                   opt ''right_wrong_feedback'' ''Right/Wrong Feedback'',
                   opt ''percentage_feedback'' ''Percentage Feedback'']\<rparr>,
             (fieldOf ''dialogueContext'' ''text'' False)\<lparr>validation := lengths None (Some 3000)\<rparr>,
             (fieldOf ''dialoguePurpose'' ''text'' False)\<lparr>validation := lengths None (Some 3000)\<rparr>]\<rparr>,
         \<lparr>sec_name = ''characterRoles'', sec_fields =
            [rolesField]\<rparr>,
         \<lparr>sec_name = ''feedback'', sec_fields =
            [(fieldOf ''feedbackDescription'' ''text'' False)\<lparr>validation := lengths None (Some 2000)\<rparr>,
             (fieldOf ''feedbackStyle'' ''select'' False)
               \<lparr>options := Some
                  [opt ''immediate'' ''Immediate'', opt ''delayed'' ''Delayed'',
                   opt ''progressive'' ''Progressive'', opt ''summary'' ''Summary'']\<rparr>]\<rparr>],
      top_fields = None,
      listFields = Some
        [generatedField ''id'' ''string'' True,
         fieldOf ''name'' ''string'' True,
         fieldOf ''description'' ''text'' False,
         generatedField ''companyId'' ''string'' True,
         generatedField ''createdBy'' ''string'' True,
         generatedField ''createdAt'' ''timestamp'' True,
         generatedField ''updatedAt'' ''timestamp'' True,
         generatedField ''updatedBy'' ''string'' False]\<rparr>"

definition environmentSchema :: schema_def where
  "environmentSchema =
     \<lparr>stype = ''environment'', version = ''1.0'', collection = ''environments'',
      sections = Some
        [\<lparr>sec_name = ''generalInfo'', sec_fields =
            [fieldOf ''image'' ''file'' False,
             (fieldOf ''name'' ''string'' True)\<lparr>validation := lengths (Some 1) (Some 200)\<rparr>,
             (fieldOf ''referenceId'' ''string'' True)
               \<lparr>validation := Some (noValidation
                  \<lparr>minLength := Some 1, maxLength := Some 100, pattern := Some ''^[a-zA-Z0-9_-]+$''\<rparr>)\<rparr>,
             (fieldOf ''season'' ''string'' False)\<lparr>validation := lengths None (Some 100)\<rparr>,
             (fieldOf ''environmentType'' ''select'' False)
               \<lparr>options := Some
                  [opt ''indoor'' ''Indoor'', opt ''outdoor'' ''Outdoor'', opt ''virtual'' ''Virtual'',
                   opt ''mixed'' ''Mixed Reality'', opt ''urban'' ''Urban'', opt ''rural'' ''Rural'',
                   opt ''natural'' ''Natural'', opt ''industrial'' ''Industrial'',
                   opt ''residential'' ''Residential'', opt ''commercial'' ''Commercial'']\<rparr>,
             (fieldOf ''description'' ''text'' False)\<lparr>validation := lengths None (Some 3000)\<rparr>]\<rparr>],
      top_fields = None,
      listFields = Some
        [generatedField ''id'' ''string'' True,
         fieldOf ''name'' ''string'' True,
         fieldOf ''description'' ''text'' False,
         generatedField ''companyId'' ''string'' True,
         generatedField ''createdBy'' ''string'' True,
         generatedField ''createdAt'' ''timestamp'' True,
         generatedField ''updatedAt'' ''timestamp'' True,
         generatedField ''updatedBy'' ''string'' False]\<rparr>"

text \<open>
  The registry \<open>schemas\<close>. The scenario schema is a parameter: what is proved below
  about the registry holds whatever that schema is.
\<close>

definition schemas :: "schema_def \<Rightarrow> (string \<times> schema_def) list" where
  "schemas scenarioSchema =
     [(''scenario'', scenarioSchema), (''character'', characterSchema),
      (''dialogue'', dialogueSchema), (''environment'', environmentSchema)]"

section \<open>Closed examples\<close>

text \<open>A runtime, and a scenario schema without fields to complete the registry.\<close>

definition sampleRuntime :: runtime where
  "sampleRuntime = \<lparr>regexp_test = (\<lambda>p s. Some True), to_string = (\<lambda>v. ''?'')\<rparr>"

definition emptyScenarioSchema :: schema_def where
  "emptyScenarioSchema =
     \<lparr>stype = ''scenario'', version = ''1.0'', collection = ''scenarios'',
      sections = None, top_fields = None, listFields = None\<rparr>"

text \<open>
  The schema change that the repository's schema evolution guide gives as its example of
  a required field with a default: \<open>{name: 'status', type: 'string', required: true,
  default: 'draft'}\<close>, with the version raised to 1.1.
\<close>

definition guideStatusSchema :: schema_def where
  "guideStatusSchema =
     \<lparr>stype = ''character'', version = ''1.1'', collection = ''characters'',
      sections = None,
      top_fields = Some [(fieldOf ''status'' ''string'' True)\<lparr>dflt := Some (JStr ''draft'')\<rparr>],
      listFields = None\<rparr>"

text \<open>A stored character that carries no \<open>schemaVersion\<close>.\<close>

definition unstampedCharacter :: jobj where
  "unstampedCharacter =
     [(''id'', JStr ''c2''), (''name'', JStr ''Eve''), (''voiceId'', JStr ''v7''),
      (''status'', JStr ''active''),
      (''companyId'', JStr ''acme''), (''createdBy'', JStr ''u1''),
      (''createdAt'', JStr ''2025-02-01T00:00:00.000Z''),
      (''updatedAt'', JStr ''2025-02-01T00:00:00.000Z'')]"

text \<open>A store with two characters of one tenant: one stamped 0.9, and the one without a stamp.\<close>

definition sampleStore :: db where
  "sampleStore =
     (\<lambda>c. if c = ''characters''
          then [(''c1'', [(''id'', JStr ''c1''), (''name'', JStr ''Bob''), (''voiceId'', JStr ''v1''),
                          (''companyId'', JStr ''acme''), (''createdBy'', JStr ''u1''),
                          (''createdAt'', JStr ''2025-01-01T00:00:00.000Z''),
                          (''updatedAt'', JStr ''2025-01-01T00:00:00.000Z''),
                          (''schemaVersion'', JStr ''0.9'')]),
                (''c2'', unstampedCharacter)]
          else [])"

text \<open>Ten characters, seven stamped 1.0 and three stamped 1.1.\<close>

definition tenCharacters :: db where
  "tenCharacters =
     (\<lambda>c. if c = ''characters''
          then map (\<lambda>n. (show_nat n, [(''schemaVersion'', JStr (if n < 7 then ''1.0'' else ''1.1''))])) [0..<10]
          else [])"

text \<open>A store whose one character carries the empty string as its stamp.\<close>

definition emptyStampStore :: db where
  "emptyStampStore =
     (\<lambda>c. if c = ''characters''
          then [(''c9'', [(''name'', JStr ''Zed''), (''schemaVersion'', JStr [])])]
          else [])"

text \<open>A store with one character that has no stamp and one stamped \<open>__proto__\<close>.\<close>

definition protoStampStore :: db where
  "protoStampStore =
     (\<lambda>c. if c = ''characters''
          then [(''c1'', [(''name'', JStr ''Ann'')]),
                (''c2'', [(''name'', JStr ''Bob''), (''schemaVersion'', JStr ''__proto__'')])]
          else [])"

definition sampleNow :: string where
  "sampleNow = ''2026-01-01T00:00:00.000Z''"

section \<open>Auxiliary notions\<close>

text \<open>
  The values that one field descriptor assigns to its key when the key is missing from
  the document, in order; the assignments of a field list; those that a document triggers.
\<close>

definition assigns :: "field \<Rightarrow> jv list" where
  "assigns f =
     (case dflt f of None \<Rightarrow> [] | Some d \<Rightarrow> [d])
     @ (if required f then (case placeholder (ftype f) of None \<Rightarrow> [] | Some p \<Rightarrow> [p]) else [])"

definition allWrites :: "field list \<Rightarrow> (string \<times> jv) list" where
  "allWrites fs = concat (map (\<lambda>f. map (Pair (name f)) (assigns f)) fs)"

definition writes :: "jobj \<Rightarrow> field list \<Rightarrow> (string \<times> jv) list" where
  "writes data fs = filter (\<lambda>kv. missing data (fst kv)) (allWrites fs)"

text \<open>
  A tally value that is a number, and the number it holds; a tally all of whose values
  are numbers, and its entries as numbers.
\<close>

fun isCount :: "tally \<Rightarrow> bool" where
  "isCount (Count n) = True"
| "isCount (Text t) = False"

fun the_count :: "tally \<Rightarrow> nat" where
  "the_count (Count n) = n"
| "the_count (Text t) = 0"

definition allCounts :: "(string \<times> tally) list \<Rightarrow> bool" where
  "allCounts vs = list_all (\<lambda>vc. isCount (snd vc)) vs"

definition numbers :: "(string \<times> tally) list \<Rightarrow> (string \<times> nat) list" where
  "numbers vs = map (\<lambda>vc. (fst vc, the_count (snd vc))) vs"

text \<open>A field descriptor that the sanitizer removes from payloads.\<close>

definition serverOwned :: "field \<Rightarrow> bool" where
  "serverOwned f = (editable f = Some False \<or> generated f)"


text \<open>A call that fetches at most a page: every call but a query without \<open>limit\<close>.\<close>

definition bounded :: "call \<Rightarrow> bool" where
  "bounded c = (case c of QueryGet q \<Rightarrow> q_limit q \<noteq> None | _ \<Rightarrow> True)"

text \<open>The calls that migrating one document issues: its read, then at most one update of it.\<close>

definition documentCalls :: "string \<Rightarrow> string \<times> jobj \<Rightarrow> call list \<Rightarrow> bool" where
  "documentCalls collectionName doc cs =
     (cs = [DocGet collectionName (fst doc)]
      \<or> (\<exists>upd. cs = [DocGet collectionName (fst doc), DocUpdate collectionName (fst doc) upd]))"

section \<open>The registry\<close>

lemma getSchema_schemas:
  "getSchema (schemas scn) t =
     (if t = ''scenario'' then Some scn
      else if t = ''character'' then Some characterSchema
      else if t = ''dialogue'' then Some dialogueSchema
      else if t = ''environment'' then Some environmentSchema
      else None)"
  by (simp add: getSchema_def schemas_def)

text \<open>
  No field of the character, dialogue and environment schemas, and no key of their
  nested field maps, names a member of \<open>Object.prototype\<close>: reading a payload or an
  item under them finds own properties only.
\<close>

lemma repository_field_names_plain:
  "list_all (\<lambda>f. name f \<notin> set objectPrototypeMembers
                  \<and> (case schema f of
                        None \<Rightarrow> True
                      | Some sch \<Rightarrow> list_all (\<lambda>kd. fst kd \<notin> set objectPrototypeMembers) sch))
     (collectFields characterSchema @ collectFields dialogueSchema @ collectFields environmentSchema)"
  by code_simp

section \<open>Unknown types\<close>

text \<open>
  C5, as the code has it: for a type name for which the registry holds no schema,
  \<open>sanitizeData\<close> returns the payload unchanged; and when the name is not that of a
  member which the registry object inherits (\<open>objectPrototypeMembers\<close>), \<open>validateData\<close>
  returns an invalid result whose only error names the type.
\<close>

theorem unknown_type_outcome:
  assumes "getSchema reg t = None"
  shows "sanitizeData reg t data = data
         \<and> (t \<notin> set objectPrototypeMembers \<longrightarrow>
              validateData rt reg t data isUpdate existingData
                = Inr \<lparr>valid = False, errors = [''Unknown schema type: '' @ t], warnings = []\<rparr>)"
  using assms by (simp add: validateData_def sanitizeData_def)

theorem unknown_type_outcome_witness:
  "getSchema (schemas emptyScenarioSchema) ''widget'' = None
   \<and> ''widget'' \<notin> set objectPrototypeMembers
   \<and> validateData sampleRuntime (schemas emptyScenarioSchema) ''widget'' [(''id'', JStr ''forged'')] False None
       = Inr \<lparr>valid = False, errors = [''Unknown schema type: widget''], warnings = []\<rparr>
   \<and> sanitizeData (schemas emptyScenarioSchema) ''widget'' [(''id'', JStr ''forged'')]
       = [(''id'', JStr ''forged'')]"
proof -
  have h: "getSchema (schemas emptyScenarioSchema) ''widget'' = None"
    by (simp add: getSchema_schemas)
  have n: "''widget'' \<notin> set objectPrototypeMembers"
    by (simp add: objectPrototypeMembers_def)
  show ?thesis
    using h n unknown_type_outcome [OF h, of "[(''id'', JStr ''forged'')]" sampleRuntime False None]
    by simp
qed

text \<open>
  Under the name of an inherited member, for which the registry holds no schema, the
  unknown-type guard of \<open>validateData\<close> does not answer: the payload is found valid.
\<close>

lemma inherited_type_found_valid:
  "getSchema (schemas emptyScenarioSchema) ''constructor'' = None
   \<and> \<not> isValidType (schemas emptyScenarioSchema) ''constructor''
   \<and> validateData sampleRuntime (schemas emptyScenarioSchema) ''constructor'' [(''id'', JStr ''forged'')] False None
       = Inr \<lparr>valid = True, errors = [], warnings = []\<rparr>"
  by code_simp

text \<open>
  Against C5 as stated: for the unknown type \<open>widget\<close>, \<open>sanitizeData\<close> does not fail;
  it hands back the payload, server-owned \<open>id\<close> included.
\<close>

theorem sanitize_unknown_type_counterexample:
  "getSchema (schemas emptyScenarioSchema) ''widget'' = None
   \<and> sanitizeData (schemas emptyScenarioSchema) ''widget'' [(''id'', JStr ''forged'')]
       = [(''id'', JStr ''forged'')]"
  by (simp add: getSchema_schemas sanitizeData_def)

section \<open>Dry runs\<close>

text \<open>
  C4: \<open>migrateDocument\<close> with \<open>dryRun = true\<close> leaves the store as it was and issues no
  call but the read of the document, whatever the type, the id and the store; its report
  is the report of the real run with only the \<open>dryRun\<close> flag set.
\<close>

theorem dry_run_leaves_store:
  "snd (migrateDocument reg now collectionName docId True store) = (store, [DocGet collectionName docId])
   \<and> fst (migrateDocument reg now collectionName docId True store)
       = (fst (migrateDocument reg now collectionName docId False store))
           \<lparr>dry_run := map_option (\<lambda>_. True)
                         (dry_run (fst (migrateDocument reg now collectionName docId False store)))\<rparr>"
  by (simp add: migrateDocument_def failure_def Let_def split: option.splits)

theorem dry_run_leaves_store_witness:
  "snd (migrateDocument (schemas emptyScenarioSchema) sampleNow ''characters'' ''c1'' True sampleStore)
     = (sampleStore, [DocGet ''characters'' ''c1''])
   \<and> changes (fst (migrateDocument (schemas emptyScenarioSchema) sampleNow ''characters'' ''c1'' True sampleStore))
     = Some [''status'']
   \<and> from_version (fst (migrateDocument (schemas emptyScenarioSchema) sampleNow ''characters'' ''c1'' True sampleStore))
     = Some (JStr ''0.9'')"
proof -
  have "changes (fst (migrateDocument (schemas emptyScenarioSchema) sampleNow ''characters'' ''c1'' True sampleStore))
          = Some [''status'']"
    by code_simp
  moreover have "from_version (fst (migrateDocument (schemas emptyScenarioSchema) sampleNow ''characters'' ''c1'' True sampleStore))
          = Some (JStr ''0.9'')"
    by code_simp
  ultimately show ?thesis
    using dry_run_leaves_store [of "schemas emptyScenarioSchema" sampleNow "''characters''" "''c1''" sampleStore]
    by simp
qed

section \<open>Defaults and placeholders\<close>

text \<open>
  C1 at the guide's own example: the document lacks \<open>status\<close>, the field is required, of
  type \<open>string\<close> and has the default \<open>draft\<close>; \<open>applyDefaults\<close> leaves the empty string
  in \<open>status\<close>, not the default. The second test of the loop body reads \<open>data\<close>, which
  the first assignment did not change.
\<close>

theorem applyDefaults_guide_example:
  "applyDefaults [(''name'', JStr ''Bob'')] guideStatusSchema
     = \<lparr>updated = [(''name'', JStr ''Bob''), (''status'', JStr [])], modified = True\<rparr>"
  by (simp add: applyDefaults_def guideStatusSchema_def collectFields_def applyField_def fieldOf_def
      missing_def placeholder_def)

subsection \<open>A pass as a sequence of assignments\<close>

lemma mergeFields_Nil [simp]: "mergeFields u [] = u"
  by (simp add: mergeFields_def)

lemma mergeFields_Cons [simp]: "mergeFields u (kv # W) = mergeFields (AList.update (fst kv) (snd kv) u) W"
  by (simp add: mergeFields_def)

lemma mergeFields_append: "mergeFields u (A @ B) = mergeFields (mergeFields u A) B"
  by (simp add: mergeFields_def)

lemma updated_applyField:
  "updated (applyField data st f)
     = mergeFields (updated st) (if missing data (name f) then map (Pair (name f)) (assigns f) else [])"
  by (simp add: applyField_def assigns_def Let_def split: option.splits)

lemma updated_foldl_applyField:
  "updated (foldl (applyField data) st fs) = mergeFields (updated st) (writes data fs)"
proof (induction fs arbitrary: st)
  case Nil
  then show ?case by (simp add: writes_def allWrites_def)
next
  case (Cons f fs)
  have "writes data (f # fs)
          = (if missing data (name f) then map (Pair (name f)) (assigns f) else []) @ writes data fs"
    by (simp add: writes_def allWrites_def filter_map o_def)
  then show ?case
    by (simp add: Cons.IH updated_applyField mergeFields_append)
qed

lemma updated_applyDefaults:
  "updated (applyDefaults data s) = mergeFields data (writes data (collectFields s))"
  by (simp add: applyDefaults_def updated_foldl_applyField)

lemma map_of_mergeFields_other:
  "k \<notin> fst ` set W \<Longrightarrow> map_of (mergeFields u W) k = map_of u k"
  by (induction W arbitrary: u) (auto simp: update_conv')

lemma keys_mergeFields: "fst ` set (mergeFields u W) = fst ` set u \<union> fst ` set W"
proof (induction W arbitrary: u)
  case Nil
  then show ?case by simp
next
  case (Cons kv W)
  have "fst ` set (AList.update (fst kv) (snd kv) u) = insert (fst kv) (fst ` set u)"
    using dom_update [of "fst kv" "snd kv" u] by simp
  then show ?case using Cons.IH [of "AList.update (fst kv) (snd kv) u"] by auto
qed

lemma update_swap_list:
  "k \<noteq> k' \<Longrightarrow> k' \<in> fst ` set x \<Longrightarrow>
     AList.update k v (AList.update k' v' x) = AList.update k' v' (AList.update k v x)"
  by (induction x) auto

lemma update_absorb:
  "fst ` set W \<subseteq> fst ` set x \<Longrightarrow>
     AList.update k v (mergeFields (AList.update k v x) W) = AList.update k v (mergeFields x W)"
proof (induction W arbitrary: x)
  case Nil
  then show ?case by simp
next
  case (Cons kv W)
  obtain k' v' where kv: "kv = (k', v')" by (cases kv)
  have sub: "fst ` set W \<subseteq> fst ` set (AList.update k' v' x)"
    using Cons.prems dom_update [of k' v' x] by (auto simp: kv)
  show ?case
  proof (cases "k' = k")
    case True
    then show ?thesis by (simp add: kv)
  next
    case False
    have "k' \<in> fst ` set x" using Cons.prems by (simp add: kv)
    then have "AList.update k' v' (AList.update k v x) = AList.update k v (AList.update k' v' x)"
      using False update_swap_list [of k k' x v v'] by simp
    then show ?thesis using Cons.IH [OF sub] by (simp add: kv)
  qed
qed

lemma update_commute_merge:
  "k \<notin> fst ` set W \<Longrightarrow> fst ` set W \<subseteq> fst ` set x \<Longrightarrow>
     mergeFields (AList.update k v x) W = AList.update k v (mergeFields x W)"
proof (induction W arbitrary: x)
  case Nil
  then show ?case by simp
next
  case (Cons kv W)
  obtain k' v' where kv: "kv = (k', v')" by (cases kv)
  have ne: "k \<noteq> k'" and nin: "k \<notin> fst ` set W" using Cons.prems(1) by (auto simp: kv)
  have k'x: "k' \<in> fst ` set x" using Cons.prems(2) by (simp add: kv)
  have sub: "fst ` set W \<subseteq> fst ` set (AList.update k' v' x)"
    using Cons.prems(2) dom_update [of k' v' x] by (auto simp: kv)
  have "AList.update k' v' (AList.update k v x) = AList.update k v (AList.update k' v' x)"
    using ne k'x update_swap_list [of k k' x v v'] by simp
  then show ?case using Cons.IH [OF nin sub] by (simp add: kv)
qed

lemma mergeFields_replay:
  "mergeFields (mergeFields u W) (filter (\<lambda>kv. Q (fst kv)) W) = mergeFields u W"
proof (induction W rule: rev_induct)
  case Nil
  then show ?case by simp
next
  case (snoc kv W)
  obtain k v where kv: "kv = (k, v)" by (cases kv)
  let ?U0 = "mergeFields u W"
  let ?W' = "filter (\<lambda>kv. Q (fst kv)) W"
  have sub: "fst ` set ?W' \<subseteq> fst ` set ?U0"
    by (auto simp: keys_mergeFields)
  have U: "mergeFields u (W @ [(k, v)]) = AList.update k v ?U0"
    by (simp add: mergeFields_append)
  show ?case
  proof (cases "Q k")
    case True
    have "mergeFields (AList.update k v ?U0) (?W' @ [(k, v)])
            = AList.update k v (mergeFields (AList.update k v ?U0) ?W')"
      by (simp add: mergeFields_append)
    also have "\<dots> = AList.update k v (mergeFields ?U0 ?W')"
      by (rule update_absorb [OF sub])
    also have "\<dots> = AList.update k v ?U0"
      by (simp add: snoc.IH)
    finally show ?thesis using True by (simp add: U kv)
  next
    case False
    then have nin: "k \<notin> fst ` set ?W'" by auto
    have "mergeFields (AList.update k v ?U0) ?W' = AList.update k v (mergeFields ?U0 ?W')"
      by (rule update_commute_merge [OF nin sub])
    then show ?thesis using False by (simp add: U kv snoc.IH)
  qed
qed

lemma writes_keys_missing: "kv \<in> set (writes data fs) \<Longrightarrow> missing data (fst kv)"
  by (simp add: writes_def)

lemma missing_after:
  assumes "missing (mergeFields data (writes data fs)) k"
  shows "missing data k"
proof (rule ccontr)
  assume n: "\<not> missing data k"
  then have "k \<notin> fst ` set (writes data fs)"
    using writes_keys_missing by blast
  then have "map_of (mergeFields data (writes data fs)) k = map_of data k"
    by (rule map_of_mergeFields_other)
  then show False using assms n by (simp add: missing_def)
qed

lemma writes_again:
  "writes (mergeFields data (writes data fs)) fs
     = filter (\<lambda>kv. missing (mergeFields data (writes data fs)) (fst kv)) (writes data fs)"
proof -
  let ?U = "mergeFields data (writes data fs)"
  have a: "writes ?U fs = filter (\<lambda>kv. missing ?U (fst kv)) (allWrites fs)"
    by (rule writes_def)
  have "filter (\<lambda>kv. missing ?U (fst kv)) (writes data fs)
          = filter (\<lambda>kv. missing ?U (fst kv)) (filter (\<lambda>kv. missing data (fst kv)) (allWrites fs))"
    by (simp only: writes_def [of data])
  also have "\<dots> = filter (\<lambda>kv. missing data (fst kv) \<and> missing ?U (fst kv)) (allWrites fs)"
    by (simp only: filter_filter)
  also have "\<dots> = filter (\<lambda>kv. missing ?U (fst kv)) (allWrites fs)"
    by (rule filter_cong) (auto dest: missing_after)
  finally show ?thesis using a by simp
qed

text \<open>
  C9: applying \<open>applyDefaults\<close> to the updated document that it returned yields that
  same document, for every schema and every document.
\<close>

theorem applyDefaults_idempotent:
  "updated (applyDefaults (updated (applyDefaults data s)) s) = updated (applyDefaults data s)"
proof -
  let ?W = "writes data (collectFields s)"
  let ?U = "mergeFields data ?W"
  have "updated (applyDefaults ?U s) = mergeFields ?U (writes ?U (collectFields s))"
    by (rule updated_applyDefaults)
  also have "\<dots> = mergeFields ?U (filter (\<lambda>kv. missing ?U (fst kv)) ?W)"
    by (simp only: writes_again)
  also have "\<dots> = ?U"
    by (rule mergeFields_replay)
  finally show ?thesis by (simp add: updated_applyDefaults)
qed

section \<open>Migration status\<close>

lemma sum_filter_update:
  "sum_list (map snd (filter (\<lambda>vc. P (fst vc)) (AList.update k v vs)))
     + (case map_of vs k of None \<Rightarrow> 0 | Some c \<Rightarrow> if P k then c else 0)
   = sum_list (map snd (filter (\<lambda>vc. P (fst vc)) vs)) + (if P k then v else (0::nat))"
  by (induction vs) auto

lemma numbers_update: "numbers (AList.update k v vs) = AList.update k (the_count v) (numbers vs)"
  by (induction vs) (auto simp: numbers_def)

lemma map_of_numbers: "map_of (numbers vs) k = map_option the_count (map_of vs k)"
  by (induction vs) (auto simp: numbers_def)

lemma numbers_filter:
  "numbers (filter (\<lambda>vc. P (fst vc)) vs) = filter (\<lambda>vc. P (fst vc)) (numbers vs)"
  by (induction vs) (auto simp: numbers_def)

lemma allCounts_update: "allCounts vs \<Longrightarrow> isCount v \<Longrightarrow> allCounts (AList.update k v vs)"
  by (induction vs) (auto simp: allCounts_def)

lemma allCounts_lookup: "allCounts vs \<Longrightarrow> map_of vs k = Some c \<Longrightarrow> isCount c"
  by (induction vs) (auto simp: allCounts_def split: if_splits)

lemma allCounts_filter: "allCounts vs \<Longrightarrow> allCounts (filter Q vs)"
  by (induction vs) (auto simp: allCounts_def)

lemma proto_member: "k \<notin> set objectPrototypeMembers \<Longrightarrow> k \<noteq> ''__proto__''"
  by (auto simp: objectPrototypeMembers_def)

text \<open>On a tally of numbers and under a key that names no inherited member, an iteration counts.\<close>

lemma countVersion_plain:
  assumes "versionKey rt (snd doc) \<notin> set objectPrototypeMembers" and "allCounts vs"
  shows "countVersion rt vs doc
           = AList.update (versionKey rt (snd doc))
               (Count ((case map_of vs (versionKey rt (snd doc)) of None \<Rightarrow> 0 | Some c \<Rightarrow> the_count c) + 1)) vs"
proof (cases "map_of vs (versionKey rt (snd doc))")
  case None
  then show ?thesis
    using assms(1) proto_member [OF assms(1)] by (simp add: countVersion_def Let_def)
next
  case (Some c)
  then have "isCount c" using assms(2) by (simp add: allCounts_lookup)
  then obtain n where "c = Count n" by (cases c) simp_all
  then show ?thesis
    using Some proto_member [OF assms(1)] by (simp add: countVersion_def Let_def)
qed

lemma countVersion_counts:
  assumes "versionKey rt (snd doc) \<notin> set objectPrototypeMembers" and "allCounts vs"
  shows "allCounts (countVersion rt vs doc)"
    and "numbers (countVersion rt vs doc)
           = AList.update (versionKey rt (snd doc))
               ((case map_of (numbers vs) (versionKey rt (snd doc)) of None \<Rightarrow> 0 | Some c \<Rightarrow> c) + 1)
               (numbers vs)"
proof -
  show "allCounts (countVersion rt vs doc)"
    using assms(2) by (simp add: countVersion_plain [OF assms] allCounts_update)
  show "numbers (countVersion rt vs doc)
           = AList.update (versionKey rt (snd doc))
               ((case map_of (numbers vs) (versionKey rt (snd doc)) of None \<Rightarrow> 0 | Some c \<Rightarrow> c) + 1)
               (numbers vs)"
    by (simp add: countVersion_plain [OF assms] numbers_update map_of_numbers split: option.splits)
qed

lemma sum_filter_countVersion:
  assumes "versionKey rt (snd doc) \<notin> set objectPrototypeMembers" and "allCounts vs"
  shows "sum_list (map snd (filter (\<lambda>vc. P (fst vc)) (numbers (countVersion rt vs doc))))
   = sum_list (map snd (filter (\<lambda>vc. P (fst vc)) (numbers vs)))
     + (if P (versionKey rt (snd doc)) then 1 else 0)"
  using sum_filter_update [of P "versionKey rt (snd doc)"
      "(case map_of (numbers vs) (versionKey rt (snd doc)) of None \<Rightarrow> 0 | Some c \<Rightarrow> c) + 1" "numbers vs"]
  by (auto simp: countVersion_counts(2) [OF assms] split: option.splits)

lemma sum_filter_versions:
  assumes "list_all (\<lambda>d. versionKey rt (snd d) \<notin> set objectPrototypeMembers) docs" and "allCounts vs"
  shows "allCounts (foldl (countVersion rt) vs docs)
   \<and> sum_list (map snd (filter (\<lambda>vc. P (fst vc)) (numbers (foldl (countVersion rt) vs docs))))
     = sum_list (map snd (filter (\<lambda>vc. P (fst vc)) (numbers vs)))
       + length (filter (\<lambda>d. P (versionKey rt (snd d))) docs)"
  using assms
proof (induction docs arbitrary: vs)
  case Nil
  then show ?case by simp
next
  case (Cons d docs)
  have k: "versionKey rt (snd d) \<notin> set objectPrototypeMembers"
    and r: "list_all (\<lambda>d. versionKey rt (snd d) \<notin> set objectPrototypeMembers) docs"
    using Cons.prems(1) by simp_all
  have c: "allCounts (countVersion rt vs d)"
    using k Cons.prems(2) by (rule countVersion_counts(1))
  show ?case
    using Cons.IH [OF r c] sum_filter_countVersion [OF k Cons.prems(2), of P] by simp
qed

lemma foldl_plus_js:
  "allCounts xs \<Longrightarrow>
     foldl (\<lambda>sum vc. plus_js sum (snd vc)) (Count a) xs = Count (a + sum_list (map snd (numbers xs)))"
proof (induction xs arbitrary: a)
  case Nil
  then show ?case by (simp add: numbers_def)
next
  case (Cons x xs)
  then obtain n where n: "snd x = Count n"
    by (cases "snd x") (simp_all add: allCounts_def)
  have "allCounts xs" using Cons.prems by (simp add: allCounts_def)
  then show ?case
    using Cons.IH [of "a + n"] n by (simp add: numbers_def)
qed

lemma keys_countVersion:
  "set (map fst (countVersion rt vs doc))
     = (if versionKey rt (snd doc) = ''__proto__'' then set (map fst vs)
        else insert (versionKey rt (snd doc)) (set (map fst vs)))"
  using dom_update [of "versionKey rt (snd doc)" _ vs]
  by (simp add: countVersion_def Let_def)

lemma keys_versions:
  "set (map fst (foldl (countVersion rt) vs docs))
     = set (map fst vs) \<union> (\<lambda>d. versionKey rt (snd d)) ` {d \<in> set docs. versionKey rt (snd d) \<noteq> ''__proto__''}"
  by (induction docs arbitrary: vs) (auto simp: keys_countVersion simp del: set_map)

lemma map_of_countVersion:
  assumes "k \<notin> set objectPrototypeMembers"
    and "map_of vs k = None \<or> (\<exists>n. map_of vs k = Some (Count n))"
  shows "map_of (countVersion rt vs doc) k
     = (if versionKey rt (snd doc) = k
        then Some (Count ((case map_of vs k of None \<Rightarrow> 0 | Some c \<Rightarrow> the_count c) + 1))
        else map_of vs k)"
  using assms proto_member [OF assms(1)]
  by (auto simp: countVersion_def Let_def update_conv')

lemma map_of_versions:
  assumes "k \<notin> set objectPrototypeMembers"
    and "map_of vs k = None \<or> (\<exists>n. map_of vs k = Some (Count n))"
  shows "map_of (foldl (countVersion rt) vs docs) k
     = (if filter (\<lambda>d. versionKey rt (snd d) = k) docs = [] then map_of vs k
        else Some (Count ((case map_of vs k of None \<Rightarrow> 0 | Some c \<Rightarrow> the_count c)
                          + length (filter (\<lambda>d. versionKey rt (snd d) = k) docs))))"
  using assms(2)
proof (induction docs arbitrary: vs)
  case Nil
  then show ?case by simp
next
  case (Cons d docs)
  note step = map_of_countVersion [OF assms(1) Cons.prems, of rt d]
  have inv: "map_of (countVersion rt vs d) k = None \<or> (\<exists>n. map_of (countVersion rt vs d) k = Some (Count n))"
    using step Cons.prems by auto
  show ?case
    using Cons.IH [OF inv] step Cons.prems by auto
qed

lemma status_total:
  assumes "list_all (\<lambda>d. versionKey rt (snd d) \<notin> set objectPrototypeMembers) (queryDocs store c cid)"
  shows "foldl plus_js (Count 0) (map snd (versionBreakdown (getMigrationStatus rt reg c cid store)))
     = Count (length (queryDocs store c cid))"
proof -
  let ?vs = "foldl (countVersion rt) [] (queryDocs store c cid)"
  have e: "allCounts []" by (simp add: allCounts_def)
  have a: "allCounts ?vs"
    and n: "sum_list (map snd (numbers ?vs)) = length (queryDocs store c cid)"
    using sum_filter_versions [OF assms e, of "\<lambda>_. True"] by (simp_all add: numbers_def)
  have "foldl plus_js (Count 0) (map snd ?vs) = foldl (\<lambda>sum vc. plus_js sum (snd vc)) (Count 0) ?vs"
    by (simp add: foldl_map)
  also have "\<dots> = Count (length (queryDocs store c cid))"
    using foldl_plus_js [OF a, of 0] n by simp
  finally show ?thesis
    by (simp add: getMigrationStatus_def Let_def)
qed

lemma status_outdated:
  assumes "list_all (\<lambda>d. versionKey rt (snd d) \<notin> set objectPrototypeMembers) (queryDocs store c cid)"
  shows "outdatedCount (getMigrationStatus rt reg c cid store)
     = Count (length (filter (\<lambda>d. versionKey rt (snd d) \<noteq> currentSchemaVersion (getMigrationStatus rt reg c cid store))
         (queryDocs store c cid)))"
proof -
  let ?vs = "foldl (countVersion rt) [] (queryDocs store c cid)"
  have e: "allCounts []" by (simp add: allCounts_def)
  have "foldl (\<lambda>sum vc. plus_js sum (snd vc)) (Count 0) (filter (\<lambda>vc. fst vc \<noteq> cur) ?vs)
          = Count (length (filter (\<lambda>d. versionKey rt (snd d) \<noteq> cur) (queryDocs store c cid)))" for cur
  proof -
    have a: "allCounts ?vs"
      and n: "sum_list (map snd (filter (\<lambda>vc. fst vc \<noteq> cur) (numbers ?vs)))
                = length (filter (\<lambda>d. versionKey rt (snd d) \<noteq> cur) (queryDocs store c cid))"
      using sum_filter_versions [OF assms e, of "\<lambda>v. v \<noteq> cur"] by (simp_all add: numbers_def)
    have "allCounts (filter (\<lambda>vc. fst vc \<noteq> cur) ?vs)"
      using a by (rule allCounts_filter)
    then show ?thesis
      using foldl_plus_js [of "filter (\<lambda>vc. fst vc \<noteq> cur) ?vs" 0] n
      by (simp add: numbers_filter [of "\<lambda>v. v \<noteq> cur"])
  qed
  then show ?thesis
    by (simp add: getMigrationStatus_def Let_def)
qed

lemma status_needs_iff:
  "needsMigration (getMigrationStatus rt reg c cid store)
     = list_ex (\<lambda>d. versionKey rt (snd d) \<noteq> ''__proto__''
                   \<and> versionKey rt (snd d) \<noteq> currentSchemaVersion (getMigrationStatus rt reg c cid store))
         (queryDocs store c cid)"
proof -
  have "list_ex (\<lambda>v. v \<noteq> cur) (map fst (foldl (countVersion rt) [] (queryDocs store c cid)))
          = list_ex (\<lambda>d. versionKey rt (snd d) \<noteq> ''__proto__'' \<and> versionKey rt (snd d) \<noteq> cur)
              (queryDocs store c cid)" for cur
  proof -
    have k: "set (map fst (foldl (countVersion rt) [] (queryDocs store c cid)))
               = (\<lambda>d. versionKey rt (snd d))
                   ` {d \<in> set (queryDocs store c cid). versionKey rt (snd d) \<noteq> ''__proto__''}"
      using keys_versions [of rt "[]" "queryDocs store c cid"] by simp
    have "list_ex (\<lambda>v. v \<noteq> cur) (map fst (foldl (countVersion rt) [] (queryDocs store c cid)))
            = (\<exists>v \<in> set (map fst (foldl (countVersion rt) [] (queryDocs store c cid))). v \<noteq> cur)"
      by (simp only: list_ex_iff)
    also have "\<dots> = (\<exists>d \<in> set (queryDocs store c cid).
                         versionKey rt (snd d) \<noteq> ''__proto__'' \<and> versionKey rt (snd d) \<noteq> cur)"
      unfolding k by blast
    finally show ?thesis
      by (simp only: list_ex_iff)
  qed
  then show ?thesis
    by (simp add: getMigrationStatus_def Let_def)
qed

lemma status_needs:
  assumes "list_all (\<lambda>d. versionKey rt (snd d) \<notin> set objectPrototypeMembers) (queryDocs store c cid)"
  shows "needsMigration (getMigrationStatus rt reg c cid store)
     = list_ex (\<lambda>d. versionKey rt (snd d) \<noteq> currentSchemaVersion (getMigrationStatus rt reg c cid store))
         (queryDocs store c cid)"
proof -
  have "\<forall>d \<in> set (queryDocs store c cid). versionKey rt (snd d) \<noteq> ''__proto__''"
    using assms proto_member by (auto simp: list_all_iff)
  then show ?thesis
    by (auto simp: status_needs_iff list_ex_iff)
qed

lemma versionKey_effective:
  "versionKey rt data
     = (case map_of data ''schemaVersion'' of
          None \<Rightarrow> ''1.0''
        | Some v \<Rightarrow> if truthy v then str rt v else ''1.0'')"
  by (simp add: versionKey_def docVersion_def str_def split: option.splits)

text \<open>
  C7, as the code has it. The version that a document counts with is its
  \<open>schemaVersion\<close> as a property key, or 1.0 when the field is missing or falsy (the
  empty string, for one): \<open>versionKey\<close>. The current version is the registry's for the
  type, or 1.0 when it has none. When no fetched document counts with a key that names
  a member of \<open>Object.prototype\<close>, the values of \<open>versionBreakdown\<close> add up (with the
  operator \<open>+\<close>) to the number \<open>totalDocuments\<close>, the number of fetched documents;
  \<open>needsMigration\<close> holds exactly when the key of some document differs from the
  current version; and \<open>outdatedCount\<close> is the number of such documents.
\<close>

theorem status_report_counts:
  assumes "list_all (\<lambda>d. versionKey rt (snd d) \<notin> set objectPrototypeMembers) (queryDocs store c cid)"
  shows "foldl plus_js (Count 0) (map snd (versionBreakdown (getMigrationStatus rt reg c cid store)))
     = Count (totalDocuments (getMigrationStatus rt reg c cid store))
   \<and> totalDocuments (getMigrationStatus rt reg c cid store) = length (queryDocs store c cid)
   \<and> needsMigration (getMigrationStatus rt reg c cid store)
     = list_ex (\<lambda>d. versionKey rt (snd d) \<noteq> currentSchemaVersion (getMigrationStatus rt reg c cid store))
         (queryDocs store c cid)
   \<and> outdatedCount (getMigrationStatus rt reg c cid store)
     = Count (length (filter (\<lambda>d. versionKey rt (snd d)
                                  \<noteq> currentSchemaVersion (getMigrationStatus rt reg c cid store))
                (queryDocs store c cid)))
   \<and> currentSchemaVersion (getMigrationStatus rt reg c cid store)
     = (case getSchema reg (butlast c) of
          None \<Rightarrow> ''1.0''
        | Some s \<Rightarrow> if version s = [] then ''1.0'' else version s)"
proof (intro conjI)
  show t: "totalDocuments (getMigrationStatus rt reg c cid store) = length (queryDocs store c cid)"
    by (simp add: getMigrationStatus_def Let_def)
  show "foldl plus_js (Count 0) (map snd (versionBreakdown (getMigrationStatus rt reg c cid store)))
     = Count (totalDocuments (getMigrationStatus rt reg c cid store))"
    unfolding t using assms by (rule status_total)
  show "currentSchemaVersion (getMigrationStatus rt reg c cid store)
     = (case getSchema reg (butlast c) of
          None \<Rightarrow> ''1.0''
        | Some s \<Rightarrow> if version s = [] then ''1.0'' else version s)"
    by (simp add: getMigrationStatus_def Let_def)
  show "needsMigration (getMigrationStatus rt reg c cid store)
     = list_ex (\<lambda>d. versionKey rt (snd d) \<noteq> currentSchemaVersion (getMigrationStatus rt reg c cid store))
         (queryDocs store c cid)"
    using assms by (rule status_needs)
  show "outdatedCount (getMigrationStatus rt reg c cid store)
     = Count (length (filter (\<lambda>d. versionKey rt (snd d)
                                  \<noteq> currentSchemaVersion (getMigrationStatus rt reg c cid store))
                (queryDocs store c cid)))"
    using assms by (rule status_outdated)
qed

theorem status_report_counts_witness:
  "list_all (\<lambda>d. versionKey sampleRuntime (snd d) \<notin> set objectPrototypeMembers)
     (queryDocs tenCharacters ''characters'' None)
   \<and> versionBreakdown (getMigrationStatus sampleRuntime [(''character'', guideStatusSchema)] ''characters'' None tenCharacters)
     = [(''1.0'', Count 7), (''1.1'', Count 3)]
   \<and> totalDocuments (getMigrationStatus sampleRuntime [(''character'', guideStatusSchema)] ''characters'' None tenCharacters) = 10
   \<and> needsMigration (getMigrationStatus sampleRuntime [(''character'', guideStatusSchema)] ''characters'' None tenCharacters)
   \<and> outdatedCount (getMigrationStatus sampleRuntime [(''character'', guideStatusSchema)] ''characters'' None tenCharacters)
       = Count 7
   \<and> length (filter (\<lambda>d. versionKey sampleRuntime (snd d) \<noteq> ''1.1'') (queryDocs tenCharacters ''characters'' None)) = 7"
proof -
  let ?r = "getMigrationStatus sampleRuntime [(''character'', guideStatusSchema)] ''characters'' None tenCharacters"
  have h: "list_all (\<lambda>d. versionKey sampleRuntime (snd d) \<notin> set objectPrototypeMembers)
             (queryDocs tenCharacters ''characters'' None)"
    by code_simp
  have b: "versionBreakdown ?r = [(''1.0'', Count 7), (''1.1'', Count 3)]"
    by code_simp
  have c: "currentSchemaVersion ?r = ''1.1''"
    by code_simp
  have n: "needsMigration ?r"
    by code_simp
  have t: "totalDocuments ?r = 10"
    by code_simp
  have out: "outdatedCount ?r = Count 7"
    by code_simp
  have "outdatedCount ?r
          = Count (length (filter (\<lambda>d. versionKey sampleRuntime (snd d) \<noteq> currentSchemaVersion ?r)
                             (queryDocs tenCharacters ''characters'' None)))"
    using status_report_counts [OF h, of "[(''character'', guideStatusSchema)]"]
    by blast
  then have "length (filter (\<lambda>d. versionKey sampleRuntime (snd d) \<noteq> ''1.1'')
                      (queryDocs tenCharacters ''characters'' None)) = 7"
    by (simp only: c out tally.inject)
  then show ?thesis
    by (simp add: b n t out h)
qed

text \<open>
  Against C7 as stated: the one character of this store is stamped with the empty
  string, which differs from the current version 1.0; it is counted under 1.0, and the
  report says that nothing needs migration and that no document is outdated.
\<close>

theorem empty_stamp_not_outdated_counterexample:
  "map_of (snd (hd (queryDocs emptyStampStore ''characters'' None))) ''schemaVersion'' = Some (JStr [])
   \<and> currentSchemaVersion (getMigrationStatus sampleRuntime (schemas emptyScenarioSchema) ''characters'' None emptyStampStore)
       = ''1.0''
   \<and> versionBreakdown (getMigrationStatus sampleRuntime (schemas emptyScenarioSchema) ''characters'' None emptyStampStore)
       = [(''1.0'', Count 1)]
   \<and> \<not> needsMigration (getMigrationStatus sampleRuntime (schemas emptyScenarioSchema) ''characters'' None emptyStampStore)
   \<and> outdatedCount (getMigrationStatus sampleRuntime (schemas emptyScenarioSchema) ''characters'' None emptyStampStore)
       = Count 0"
  by code_simp

text \<open>
  A document stamped \<open>__proto__\<close> is fetched and counted by \<open>totalDocuments\<close>, and
  appears nowhere else in the report: of the two characters of this store, under the
  current version 1.1, one is in the breakdown and one is outdated.
\<close>

lemma proto_stamp_not_counted:
  "totalDocuments (getMigrationStatus sampleRuntime [(''character'', guideStatusSchema)] ''characters'' None protoStampStore) = 2
   \<and> versionBreakdown (getMigrationStatus sampleRuntime [(''character'', guideStatusSchema)] ''characters'' None protoStampStore)
       = [(''1.0'', Count 1)]
   \<and> outdatedCount (getMigrationStatus sampleRuntime [(''character'', guideStatusSchema)] ''characters'' None protoStampStore)
       = Count 1"
  by code_simp

lemma docVersion_unstamped:
  "map_of data ''schemaVersion'' = None \<Longrightarrow> docVersion data = JStr ''1.0''"
  by (simp add: docVersion_def)

lemma versionKey_unstamped:
  "map_of data ''schemaVersion'' = None \<Longrightarrow> versionKey rt data = ''1.0''"
  by (simp add: versionKey_def docVersion_unstamped str_def)

lemma version_1_0_no_member: "''1.0'' \<notin> set objectPrototypeMembers"
  by (simp add: objectPrototypeMembers_def)

lemma unstamped_counted:
  assumes "map_of data ''schemaVersion'' = None" and "(i, data) \<in> set (queryDocs store c cid)"
  shows "map_of (versionBreakdown (getMigrationStatus rt reg c cid store)) ''1.0''
           = Some (Count (length (filter (\<lambda>d. versionKey rt (snd d) = ''1.0'') (queryDocs store c cid))))"
proof -
  have "(i, data) \<in> set (filter (\<lambda>d. versionKey rt (snd d) = ''1.0'') (queryDocs store c cid))"
    using assms(2) versionKey_unstamped [OF assms(1), of rt] by simp
  then have "filter (\<lambda>d. versionKey rt (snd d) = ''1.0'') (queryDocs store c cid) \<noteq> []"
    by (metis empty_iff empty_set)
  then show ?thesis
    using map_of_versions [OF version_1_0_no_member, of "[]" rt "queryDocs store c cid"]
    by (simp add: getMigrationStatus_def Let_def)
qed

text \<open>
  C10: a stored document without a \<open>schemaVersion\<close> field counts as stamped 1.0.
  \<open>migrateDocument\<close> answers "already at latest version 1.0" when the registry's version
  is 1.0 and otherwise migrates with \<open>from = 1.0\<close>. \<open>getMigrationStatus\<close> counts the
  document under the key 1.0 of \<open>versionBreakdown\<close>, whose value is the number of the
  documents that count with 1.0; when the current version is not 1.0 it reports that
  migration is needed, and the entry for 1.0 is among the entries that \<open>outdatedCount\<close>
  adds up, so that, when no fetched document counts with a key naming a member of
  \<open>Object.prototype\<close>, \<open>outdatedCount\<close> is the number of the documents whose key
  differs from the current version, this document among them.
\<close>

theorem unstamped_document_is_version_1_0:
  assumes "map_of data ''schemaVersion'' = None"
  shows "(map_of (store c) i = Some data \<and> getSchema reg (butlast c) = Some s \<longrightarrow>
            (version s = ''1.0'' \<longrightarrow>
               fst (migrateDocument reg now c i dryRun store)
                 = \<lparr>success = True, err = None, message = Some ''Already at latest version'',
                    version_at = Some (JStr ''1.0''), from_version = None, to_version = None,
                    changes = None, dry_run = None\<rparr>)
            \<and> (version s \<noteq> ''1.0'' \<longrightarrow>
               success (fst (migrateDocument reg now c i dryRun store))
               \<and> from_version (fst (migrateDocument reg now c i dryRun store)) = Some (JStr ''1.0'')
               \<and> to_version (fst (migrateDocument reg now c i dryRun store)) = Some (version s)))
         \<and> ((i, data) \<in> set (queryDocs store c cid) \<longrightarrow>
              map_of (versionBreakdown (getMigrationStatus rt reg c cid store)) ''1.0''
                = Some (Count (length (filter (\<lambda>d. versionKey rt (snd d) = ''1.0'') (queryDocs store c cid))))
              \<and> (i, data) \<in> set (filter (\<lambda>d. versionKey rt (snd d) = ''1.0'') (queryDocs store c cid))
              \<and> (currentSchemaVersion (getMigrationStatus rt reg c cid store) \<noteq> ''1.0'' \<longrightarrow>
                   needsMigration (getMigrationStatus rt reg c cid store)
                   \<and> (''1.0'', Count (length (filter (\<lambda>d. versionKey rt (snd d) = ''1.0'') (queryDocs store c cid))))
                       \<in> set (filter (\<lambda>vc. fst vc \<noteq> currentSchemaVersion (getMigrationStatus rt reg c cid store))
                                (versionBreakdown (getMigrationStatus rt reg c cid store)))
                   \<and> (i, data) \<in> set (filter (\<lambda>d. versionKey rt (snd d)
                                                  \<noteq> currentSchemaVersion (getMigrationStatus rt reg c cid store))
                                         (queryDocs store c cid))
                   \<and> (list_all (\<lambda>d. versionKey rt (snd d) \<notin> set objectPrototypeMembers)
                         (queryDocs store c cid) \<longrightarrow>
                       outdatedCount (getMigrationStatus rt reg c cid store)
                         = Count (length (filter (\<lambda>d. versionKey rt (snd d)
                                                  \<noteq> currentSchemaVersion (getMigrationStatus rt reg c cid store))
                                         (queryDocs store c cid))))))"
proof (intro conjI impI)
  assume "map_of (store c) i = Some data \<and> getSchema reg (butlast c) = Some s" and "version s = ''1.0''"
  then show "fst (migrateDocument reg now c i dryRun store)
                 = \<lparr>success = True, err = None, message = Some ''Already at latest version'',
                    version_at = Some (JStr ''1.0''), from_version = None, to_version = None,
                    changes = None, dry_run = None\<rparr>"
    using assms by (simp add: migrateDocument_def docVersion_unstamped)
next
  assume h: "map_of (store c) i = Some data \<and> getSchema reg (butlast c) = Some s" and v: "version s \<noteq> ''1.0''"
  show "success (fst (migrateDocument reg now c i dryRun store))"
    using h v assms by (simp add: migrateDocument_def docVersion_unstamped Let_def)
  show "from_version (fst (migrateDocument reg now c i dryRun store)) = Some (JStr ''1.0'')"
    using h v assms by (simp add: migrateDocument_def docVersion_unstamped Let_def)
  show "to_version (fst (migrateDocument reg now c i dryRun store)) = Some (version s)"
    using h v assms by (simp add: migrateDocument_def docVersion_unstamped Let_def)
next
  assume m: "(i, data) \<in> set (queryDocs store c cid)"
  show "map_of (versionBreakdown (getMigrationStatus rt reg c cid store)) ''1.0''
                = Some (Count (length (filter (\<lambda>d. versionKey rt (snd d) = ''1.0'') (queryDocs store c cid))))"
    using assms m by (rule unstamped_counted)
  show "(i, data) \<in> set (filter (\<lambda>d. versionKey rt (snd d) = ''1.0'') (queryDocs store c cid))"
    using m versionKey_unstamped [OF assms, of rt] by simp
next
  assume m: "(i, data) \<in> set (queryDocs store c cid)"
    and cur: "currentSchemaVersion (getMigrationStatus rt reg c cid store) \<noteq> ''1.0''"
  have k: "versionKey rt data = ''1.0''" using assms by (rule versionKey_unstamped)
  show out: "(i, data) \<in> set (filter (\<lambda>d. versionKey rt (snd d)
                                                  \<noteq> currentSchemaVersion (getMigrationStatus rt reg c cid store))
                                         (queryDocs store c cid))"
    using m k cur by auto
  have "\<exists>d \<in> set (queryDocs store c cid).
          versionKey rt (snd d) \<noteq> ''__proto__''
          \<and> versionKey rt (snd d) \<noteq> currentSchemaVersion (getMigrationStatus rt reg c cid store)"
    using m k cur by (intro bexI [of _ "(i, data)"]) simp_all
  then show "needsMigration (getMigrationStatus rt reg c cid store)"
    by (simp add: status_needs_iff list_ex_iff)
  have "(''1.0'', Count (length (filter (\<lambda>d. versionKey rt (snd d) = ''1.0'') (queryDocs store c cid))))
          \<in> set (versionBreakdown (getMigrationStatus rt reg c cid store))"
    using unstamped_counted [OF assms m, of rt reg] by (rule map_of_SomeD)
  then show "(''1.0'', Count (length (filter (\<lambda>d. versionKey rt (snd d) = ''1.0'') (queryDocs store c cid))))
                       \<in> set (filter (\<lambda>vc. fst vc \<noteq> currentSchemaVersion (getMigrationStatus rt reg c cid store))
                                (versionBreakdown (getMigrationStatus rt reg c cid store)))"
    using cur by simp
next
  assume "list_all (\<lambda>d. versionKey rt (snd d) \<notin> set objectPrototypeMembers) (queryDocs store c cid)"
  then show "outdatedCount (getMigrationStatus rt reg c cid store)
                       = Count (length (filter (\<lambda>d. versionKey rt (snd d)
                                                  \<noteq> currentSchemaVersion (getMigrationStatus rt reg c cid store))
                                         (queryDocs store c cid)))"
    by (rule status_outdated)
qed

theorem unstamped_document_is_version_1_0_witness:
  "map_of unstampedCharacter ''schemaVersion'' = None
   \<and> from_version (fst (migrateDocument [(''character'', guideStatusSchema)] sampleNow ''characters'' ''c2'' True sampleStore))
       = Some (JStr ''1.0'')
   \<and> to_version (fst (migrateDocument [(''character'', guideStatusSchema)] sampleNow ''characters'' ''c2'' True sampleStore))
       = Some ''1.1''
   \<and> map_of (versionBreakdown (getMigrationStatus sampleRuntime [(''character'', guideStatusSchema)] ''characters'' None sampleStore)) ''1.0''
       = Some (Count 1)
   \<and> needsMigration (getMigrationStatus sampleRuntime [(''character'', guideStatusSchema)] ''characters'' None sampleStore)
   \<and> list_all (\<lambda>d. versionKey sampleRuntime (snd d) \<notin> set objectPrototypeMembers)
       (queryDocs sampleStore ''characters'' None)
   \<and> outdatedCount (getMigrationStatus sampleRuntime [(''character'', guideStatusSchema)] ''characters'' None sampleStore)
       = Count 2"
proof -
  let ?reg = "[(''character'', guideStatusSchema)]"
  let ?r = "getMigrationStatus sampleRuntime ?reg ''characters'' None sampleStore"
  have h: "map_of unstampedCharacter ''schemaVersion'' = None"
    by (simp add: unstampedCharacter_def)
  have p1: "map_of (sampleStore ''characters'') ''c2'' = Some unstampedCharacter
            \<and> getSchema ?reg (butlast ''characters'') = Some guideStatusSchema"
    by (simp add: sampleStore_def getSchema_def)
  have p2: "version guideStatusSchema \<noteq> ''1.0''"
    by (simp add: guideStatusSchema_def)
  have v: "version guideStatusSchema = ''1.1''"
    by (simp add: guideStatusSchema_def)
  have p3: "(''c2'', unstampedCharacter) \<in> set (queryDocs sampleStore ''characters'' None)"
    by (simp add: queryDocs_def runQuery_def collectionQuery_def sampleStore_def)
  have p4: "currentSchemaVersion ?r \<noteq> ''1.0''"
    by (simp add: getMigrationStatus_def Let_def getSchema_def guideStatusSchema_def)
  have n: "length (filter (\<lambda>d. versionKey sampleRuntime (snd d) = ''1.0'') (queryDocs sampleStore ''characters'' None)) = 1"
    by code_simp
  have out: "outdatedCount ?r = Count 2"
    by code_simp
  have np: "list_all (\<lambda>d. versionKey sampleRuntime (snd d) \<notin> set objectPrototypeMembers)
              (queryDocs sampleStore ''characters'' None)"
    by code_simp
  show ?thesis
    using unstamped_document_is_version_1_0 [OF h, of sampleStore "''characters''" "''c2''" ?reg
        guideStatusSchema sampleNow True None sampleRuntime] p1 p2 p3 p4 h np
    by (simp add: n out v)
qed

section \<open>Properties of the sanitizer\<close>

lemma sanitize_step_keys:
  "fst ` set (foldl (\<lambda>sanitized f. if editable f = Some False \<or> generated f
                                      then AList.delete (name f) sanitized else sanitized) d fs)
     = fst ` set d - name ` {f \<in> set fs. serverOwned f}"
proof (induction fs arbitrary: d)
  case Nil
  then show ?case by simp
next
  case (Cons f fs)
  have "fst ` set (AList.delete (name f) d) = fst ` set d - {name f}"
    using delete_keys [of "name f" d] by (metis image_set set_removeAll)
  then show ?case
    using Cons.IH by (auto simp: serverOwned_def)
qed

lemma sanitizeData_keys:
  "getSchema reg t = Some s \<Longrightarrow>
     fst ` set (sanitizeData reg t data)
       = fst ` set data - name ` {f \<in> set (dedupeFields (collectFields s)). serverOwned f}"
  by (simp add: sanitizeData_def sanitize_step_keys)

lemma character_owned:
  "map name (filter serverOwned (dedupeFields (collectFields characterSchema)))
     = [''id'', ''companyId'', ''createdBy'', ''createdAt'', ''updatedAt'', ''updatedBy'']"
  by code_simp

lemma dialogue_owned:
  "map name (filter serverOwned (dedupeFields (collectFields dialogueSchema)))
     = [''id'', ''companyId'', ''createdBy'', ''createdAt'', ''updatedAt'', ''updatedBy'']"
  by code_simp

lemma environment_owned:
  "map name (filter serverOwned (dedupeFields (collectFields environmentSchema)))
     = [''id'', ''companyId'', ''createdBy'', ''createdAt'', ''updatedAt'', ''updatedBy'']"
  by code_simp

lemma owned_names:
  "name ` {f \<in> set fs. serverOwned f} = set (map name (filter serverOwned fs))"
  by auto

text \<open>
  C2, as the code has it: for the character, dialogue and environment types and every
  payload, the keys of the sanitized payload are the keys of the payload without the
  document id, the tenant id and the audit fields (\<open>id\<close>, \<open>companyId\<close>, \<open>createdBy\<close>,
  \<open>createdAt\<close>, \<open>updatedAt\<close>, \<open>updatedBy\<close>). No schema declares \<open>schemaVersion\<close> as
  a field, so that key stays when the caller sends it.
\<close>

theorem sanitize_strips_declared_server_fields:
  assumes "t = ''character'' \<or> t = ''dialogue'' \<or> t = ''environment''"
  shows "fst ` set (sanitizeData (schemas scenarioSchema) t data)
           = fst ` set data - {''id'', ''companyId'', ''createdBy'', ''createdAt'', ''updatedAt'', ''updatedBy''}"
proof -
  consider "t = ''character''" | "t = ''dialogue''" | "t = ''environment''"
    using assms by blast
  then show ?thesis
  proof cases
    case 1
    then have "getSchema (schemas scenarioSchema) t = Some characterSchema"
      by (simp add: getSchema_schemas)
    then show ?thesis
      by (simp only: sanitizeData_keys owned_names character_owned) auto
  next
    case 2
    then have "getSchema (schemas scenarioSchema) t = Some dialogueSchema"
      by (simp add: getSchema_schemas)
    then show ?thesis
      by (simp only: sanitizeData_keys owned_names dialogue_owned) auto
  next
    case 3
    then have "getSchema (schemas scenarioSchema) t = Some environmentSchema"
      by (simp add: getSchema_schemas)
    then show ?thesis
      by (simp only: sanitizeData_keys owned_names environment_owned) auto
  qed
qed

theorem sanitize_strips_declared_server_fields_witness:
  "fst ` set (sanitizeData (schemas emptyScenarioSchema) ''character''
               [(''id'', JStr ''forged''), (''createdAt'', JStr ''1970''), (''name'', JStr ''Bob'')])
     = {''name''}"
  using sanitize_strips_declared_server_fields [of "''character''" emptyScenarioSchema
      "[(''id'', JStr ''forged''), (''createdAt'', JStr ''1970''), (''name'', JStr ''Bob'')]"]
  by auto

text \<open>
  Against C2 as stated: a character payload that carries \<open>schemaVersion\<close> keeps it
  through \<open>sanitizeData\<close>, while the forged \<open>id\<close> is removed.
\<close>

theorem sanitize_keeps_schemaVersion_counterexample:
  "sanitizeData (schemas emptyScenarioSchema) ''character''
     [(''id'', JStr ''forged''), (''schemaVersion'', JStr ''9.9''), (''name'', JStr ''Bob'')]
   = [(''schemaVersion'', JStr ''9.9''), (''name'', JStr ''Bob'')]"
  by code_simp

section \<open>Properties of the collection sweep\<close>

lemma migrateDocument_calls:
  "documentCalls c (i, d) (snd (snd (migrateDocument reg now c i dryRun store)))"
  by (simp add: migrateDocument_def documentCalls_def failure_def Let_def split: option.splits)

lemma migrateEach_calls:
  "\<exists>chunks. snd (snd (migrateEach reg clock c dryRun docs store)) = concat chunks
            \<and> list_all2 (documentCalls c) docs chunks"
proof (induction docs arbitrary: store)
  case Nil
  then show ?case by simp
next
  case (Cons doc docs)
  obtain r store1 calls1 where m: "migrateDocument reg (clock (fst doc)) c (fst doc) dryRun store = (r, store1, calls1)"
    by (cases "migrateDocument reg (clock (fst doc)) c (fst doc) dryRun store") auto
  obtain rs store2 calls2 where e: "migrateEach reg clock c dryRun docs store1 = (rs, store2, calls2)"
    by (cases "migrateEach reg clock c dryRun docs store1") auto
  obtain chunks where ch: "calls2 = concat chunks" "list_all2 (documentCalls c) docs chunks"
    using Cons.IH [of store1] e by auto
  have "documentCalls c doc calls1"
    using migrateDocument_calls [of c "fst doc" "snd doc" reg "clock (fst doc)" dryRun store] m by simp
  then have "list_all2 (documentCalls c) (doc # docs) (calls1 # chunks)"
    using ch by simp
  moreover have "snd (snd (migrateEach reg clock c dryRun (doc # docs) store)) = concat (calls1 # chunks)"
    using m e ch by simp
  ultimately show ?case by blast
qed

lemma migrateEach_ids:
  "map item_id (fst (migrateEach reg clock c dryRun docs store)) = map fst docs"
proof (induction docs arbitrary: store)
  case Nil
  then show ?case by simp
next
  case (Cons doc docs)
  obtain r store1 calls1 where m: "migrateDocument reg (clock (fst doc)) c (fst doc) dryRun store = (r, store1, calls1)"
    by (cases "migrateDocument reg (clock (fst doc)) c (fst doc) dryRun store") auto
  obtain rs store2 calls2 where e: "migrateEach reg clock c dryRun docs store1 = (rs, store2, calls2)"
    by (cases "migrateEach reg clock c dryRun docs store1") auto
  show ?case
    using m e Cons.IH [of store1] by simp
qed

text \<open>
  C6, as the code has it: \<open>migrateCollection\<close> issues exactly one query, without a
  limit, for the whole collection (filtered by tenant when one is given), then handles
  the fetched documents one after the other in the order of the snapshot: for each, a
  read of that document followed by at most one update of it. The report lists every
  fetched document.
\<close>

theorem migrateCollection_one_query:
  "q_limit (collectionQuery c cid) = None
   \<and> (\<exists>chunks. snd (snd (migrateCollection reg clock c cid dryRun store))
                  = QueryGet (collectionQuery c cid) # concat chunks
               \<and> list_all2 (documentCalls c) (runQuery store (collectionQuery c cid)) chunks)
   \<and> map item_id (results (fst (migrateCollection reg clock c cid dryRun store)))
       = map fst (runQuery store (collectionQuery c cid))
   \<and> total (fst (migrateCollection reg clock c cid dryRun store))
       = length (runQuery store (collectionQuery c cid))"
proof -
  let ?snap = "runQuery store (collectionQuery c cid)"
  obtain rs store1 calls1 where e: "migrateEach reg clock c dryRun ?snap store = (rs, store1, calls1)"
    by (cases "migrateEach reg clock c dryRun ?snap store") auto
  obtain chunks where ch: "calls1 = concat chunks" "list_all2 (documentCalls c) ?snap chunks"
    using migrateEach_calls [of reg clock c dryRun ?snap store] e by auto
  have ids: "map item_id rs = map fst ?snap"
    using migrateEach_ids [of reg clock c dryRun ?snap store] e by simp
  then have len: "length rs = length ?snap"
    by (metis length_map)
  have "q_limit (collectionQuery c cid) = None"
    by (simp add: collectionQuery_def Let_def split: option.splits)
  moreover have "snd (snd (migrateCollection reg clock c cid dryRun store))
                  = QueryGet (collectionQuery c cid) # concat chunks"
    using e ch by (simp add: migrateCollection_def queryDocs_def Let_def)
  moreover have "map item_id (results (fst (migrateCollection reg clock c cid dryRun store))) = map fst ?snap"
    using e ids by (simp add: migrateCollection_def queryDocs_def Let_def)
  moreover have "total (fst (migrateCollection reg clock c cid dryRun store)) = length ?snap"
    using e len by (simp add: migrateCollection_def queryDocs_def Let_def)
  ultimately show ?thesis using ch(2) by blast
qed

theorem migrateCollection_one_query_witness:
  "q_limit (collectionQuery ''characters'' (Some ''acme'')) = None
   \<and> snd (snd (migrateCollection (schemas emptyScenarioSchema) (\<lambda>i. sampleNow) ''characters'' (Some ''acme'') False sampleStore))
       = [QueryGet \<lparr>q_collection = ''characters'', q_where = Some ''acme'', q_limit = None\<rparr>,
          DocGet ''characters'' ''c1'',
          DocUpdate ''characters'' ''c1''
            (AList.update ''updatedAt'' (JStr sampleNow)
               (AList.update ''schemaVersion'' (JStr ''1.0'')
                  (AList.update ''status'' (JStr ''draft'') (the (map_of (sampleStore ''characters'') ''c1''))))),
          DocGet ''characters'' ''c2'']
   \<and> total (fst (migrateCollection (schemas emptyScenarioSchema) (\<lambda>i. sampleNow) ''characters'' (Some ''acme'') False sampleStore)) = 2"
proof -
  have t: "snd (snd (migrateCollection (schemas emptyScenarioSchema) (\<lambda>i. sampleNow) ''characters'' (Some ''acme'') False sampleStore))
       = [QueryGet \<lparr>q_collection = ''characters'', q_where = Some ''acme'', q_limit = None\<rparr>,
          DocGet ''characters'' ''c1'',
          DocUpdate ''characters'' ''c1''
            (AList.update ''updatedAt'' (JStr sampleNow)
               (AList.update ''schemaVersion'' (JStr ''1.0'')
                  (AList.update ''status'' (JStr ''draft'') (the (map_of (sampleStore ''characters'') ''c1''))))),
          DocGet ''characters'' ''c2'']"
    by code_simp
  have l: "length (runQuery sampleStore (collectionQuery ''characters'' (Some ''acme''))) = 2"
    by code_simp
  show ?thesis
    using migrateCollection_one_query [of "''characters''" "Some ''acme''" "schemas emptyScenarioSchema"
        "\<lambda>i. sampleNow" False sampleStore] t l
    by simp
qed

lemma runQuery_unlimited:
  "runQuery store (collectionQuery c None) = store c"
  by (simp add: runQuery_def collectionQuery_def)

text \<open>
  Against C6 as stated: on the sample store the sweep's only fetch is a query without a
  limit, and that query returns the whole collection.
\<close>

theorem migrateCollection_unbounded_counterexample:
  "snd (snd (migrateCollection (schemas emptyScenarioSchema) (\<lambda>i. sampleNow) ''characters'' None True sampleStore))
     = [QueryGet \<lparr>q_collection = ''characters'', q_where = None, q_limit = None\<rparr>,
        DocGet ''characters'' ''c1'', DocGet ''characters'' ''c2'']
   \<and> \<not> list_all bounded (snd (snd (migrateCollection (schemas emptyScenarioSchema) (\<lambda>i. sampleNow) ''characters'' None True sampleStore)))
   \<and> runQuery sampleStore \<lparr>q_collection = ''characters'', q_where = None, q_limit = None\<rparr>
       = sampleStore ''characters''"
proof -
  have "snd (snd (migrateCollection (schemas emptyScenarioSchema) (\<lambda>i. sampleNow) ''characters'' None True sampleStore))
     = [QueryGet \<lparr>q_collection = ''characters'', q_where = None, q_limit = None\<rparr>,
        DocGet ''characters'' ''c1'', DocGet ''characters'' ''c2'']"
    by code_simp
  then show ?thesis
    by (simp add: bounded_def runQuery_def)
qed

section \<open>Properties of the validator\<close>




lemma collectErrors_skip:
  "(\<forall>x \<in> set xs. \<not> P x \<longrightarrow> g x = Inr []) \<Longrightarrow> collectErrors g (filter P xs) = collectErrors g xs"
  by (induction xs) (auto split: sum.splits)























text \<open>
  What the check of a required field that is not skipped yields when the value is
  absent or empty (the field's name being that of no inherited member, so that the read
  of an absent key yields \<open>undefined\<close>).
\<close>

lemma validateField_required:
  assumes "required f" and "\<not> (generated f \<and> editable f = Some False)"
    and "name f \<notin> set objectPrototypeMembers"
    and "map_of data (name f) = None \<or> map_of data (name f) = Some JNull
           \<or> map_of data (name f) = Some (JStr [])"
  shows "validateField rt False data f = Inr [fieldMsg (name f) '' is required'']"
    and "''hasOwnProperty'' \<in> fst ` set data \<Longrightarrow> validateField rt True data f = Inl TypeError"
    and "''hasOwnProperty'' \<notin> fst ` set data \<Longrightarrow> name f \<in> fst ` set data \<Longrightarrow>
           validateField rt True data f = Inr [fieldMsg (name f) '' is required and cannot be set to empty'']"
    and "''hasOwnProperty'' \<notin> fst ` set data \<Longrightarrow> name f \<notin> fst ` set data \<Longrightarrow>
           validateField rt True data f = Inr []"
  using assms by (auto simp: validateField_def Let_def)

text \<open>
  C3 on a creation payload for a dialogue that lacks \<open>name\<close> and carries a null role.
  \<open>name\<close> is a required, non-generated field of the dialogue type and its value is
  absent; its check alone yields the error "Field 'name' is required". The check of
  \<open>roles\<close> then reads a property of the null item and throws, so \<open>validateData\<close>
  returns no result: no error for \<open>name\<close> is reported.
\<close>

theorem required_error_lost_on_null_item:
  "list_ex (\<lambda>f. name f = ''name'' \<and> required f \<and> \<not> generated f)
     (dedupeFields (collectFields dialogueSchema))
   \<and> map_of [(''roles'', JArr [JNull])] ''name'' = None
   \<and> collectErrors (validateField sampleRuntime False [(''roles'', JArr [JNull])])
        (filter (\<lambda>f. name f = ''name'') (dedupeFields (collectFields dialogueSchema)))
       = Inr [''Field 'name' is required'']
   \<and> validateData sampleRuntime (schemas emptyScenarioSchema) ''dialogue'' [(''roles'', JArr [JNull])] False None
       = Inl TypeError"
  by code_simp

text \<open>
  In update mode a payload with an own key \<open>hasOwnProperty\<close> and an empty required
  field gets no result either: the call \<open>data.hasOwnProperty(...)\<close> throws.
\<close>

lemma update_with_own_hasOwnProperty_throws:
  "validateData sampleRuntime (schemas emptyScenarioSchema) ''character''
     [(''hasOwnProperty'', JStr ''x''), (''name'', JStr [])] True None = Inl TypeError"
  by code_simp



text \<open>A null item is not validated: reading a property of it throws.\<close>

lemma dialogue_null_role_throws:
  "validateData sampleRuntime (schemas emptyScenarioSchema) ''dialogue''
     [(''name'', JStr ''Intro''), (''roles'', JArr [JNull])] False None = Inl TypeError"
  by code_simp

end
